theory Spec2Isabelle
  imports Main "HOL-Library.Word"
begin

section \<open>JavaScript strings\<close>

text \<open>
  A JavaScript string is a sequence of UTF-16 code units, and \<^verbatim>\<open>s.length\<close> counts code
  units. The model keeps that: a string is a list of 16-bit words, so \<open>length\<close> is
  \<^verbatim>\<open>.length\<close>, \<open>take n\<close> is \<^verbatim>\<open>slice(0, n)\<close> and \<open>drop n\<close> is \<^verbatim>\<open>slice(n)\<close>.
  \<open>lit\<close> writes an ASCII literal of the source.
\<close>

type_synonym jschar = "16 word"
type_synonym jsstring = "jschar list"

definition lit :: "string \<Rightarrow> jsstring" where
  "lit s = map of_char s"

text \<open>\<^verbatim>\<open>String(n)\<close> for an integer \<open>n\<close>: its decimal numeral (below \<open>10^21\<close>, where
  JavaScript switches to exponent notation; line numbers and clock components stay far
  below that).\<close>

definition digit :: "nat \<Rightarrow> jschar" where
  "digit d = of_nat (48 + d)"

fun decimal :: "nat \<Rightarrow> jsstring" where
  "decimal n = (if n < 10 then [digit n] else decimal (n div 10) @ [digit (n mod 10)])"

declare decimal.simps [simp del]

definition String_int :: "int \<Rightarrow> jsstring" where
  "String_int i = (if i < 0 then lit ''-'' @ decimal (nat (- i)) else decimal (nat i))"

text \<open>\<^verbatim>\<open>s.padStart(n, "0")\<close> and \<^verbatim>\<open>s.padEnd(n)\<close> (padding with spaces).\<close>

definition padStart0 :: "nat \<Rightarrow> jsstring \<Rightarrow> jsstring" where
  "padStart0 n s = replicate (n - length s) (digit 0) @ s"

definition padEnd :: "nat \<Rightarrow> jsstring \<Rightarrow> jsstring" where
  "padEnd n s = s @ replicate (n - length s) (of_char CHR '' '')"

text \<open>\<^verbatim>\<open>s.trim()\<close> removes the code units of ECMAScript's WhiteSpace and LineTerminator
  productions from both ends.\<close>

definition isWhiteSpace :: "jschar \<Rightarrow> bool" where
  "isWhiteSpace c \<longleftrightarrow> c \<in> set [0x09, 0x0A, 0x0B, 0x0C, 0x0D, 0x20, 0xA0, 0x1680,
     0x2000, 0x2001, 0x2002, 0x2003, 0x2004, 0x2005, 0x2006, 0x2007, 0x2008, 0x2009, 0x200A,
     0x2028, 0x2029, 0x202F, 0x205F, 0x3000, 0xFEFF]"

definition trim :: "jsstring \<Rightarrow> jsstring" where
  "trim s = rev (dropWhile isWhiteSpace (rev (dropWhile isWhiteSpace s)))"

definition startsWith :: "jsstring \<Rightarrow> jsstring \<Rightarrow> bool" where
  "startsWith s p \<longleftrightarrow> take (length p) s = p"

text \<open>\<^verbatim>\<open>s.split("\n")\<close>: always at least one piece; \<^verbatim>\<open>"".split("\n")\<close> is \<^verbatim>\<open>[""]\<close>.\<close>

fun split_newline :: "jsstring \<Rightarrow> jsstring list" where
  "split_newline [] = [[]]"
| "split_newline (c # cs) =
    (if c = 0x0A then [] # split_newline cs
     else (case split_newline cs of [] \<Rightarrow> [[c]] | l # ls \<Rightarrow> (c # l) # ls))"

text \<open>\<^verbatim>\<open>parts.join(sep)\<close> on an array of strings.\<close>

fun join :: "jsstring \<Rightarrow> jsstring list \<Rightarrow> jsstring" where
  "join sep [] = []"
| "join sep [x] = x"
| "join sep (x # y # ys) = x @ sep @ join sep (y # ys)"

section \<open>Relative timestamps\<close>

text \<open>JavaScript's \<^verbatim>\<open>%\<close> takes the sign of the dividend.\<close>

definition js_rem :: "int \<Rightarrow> int \<Rightarrow> int" where
  "js_rem a b = sgn a * (\<bar>a\<bar> mod \<bar>b\<bar>)"

text \<open>\<^verbatim>\<open>formatRelativeTime(elapsed)\<close>: \<open>elapsed\<close> is a difference of two
  \<^verbatim>\<open>Date\<close> time values, an integer number of milliseconds. \<^verbatim>\<open>Math.floor(a / b)\<close> on
  integers with \<open>b > 0\<close> is \<open>div\<close>.\<close>

definition formatRelativeTime :: "int \<Rightarrow> jsstring" where
  "formatRelativeTime elapsed =
    (let totalSeconds = elapsed div 1000;
         hours = totalSeconds div 3600;
         minutes = js_rem totalSeconds 3600 div 60;
         seconds = js_rem totalSeconds 60
     in if hours > 0
        then padStart0 2 (String_int hours) @ lit '':'' @ padStart0 2 (String_int minutes)
             @ lit '':'' @ padStart0 2 (String_int seconds)
        else padStart0 2 (String_int minutes) @ lit '':'' @ padStart0 2 (String_int seconds))"

text \<open>The format the specification describes, written from its words: a component is
  shown with two decimal digits; only an hour count of 100 or more needs more room.\<close>

definition two_digits :: "nat \<Rightarrow> jsstring" where
  "two_digits n = [digit (n div 10), digit (n mod 10)]"

definition MM_SS :: "nat \<Rightarrow> nat \<Rightarrow> jsstring" where
  "MM_SS m s = two_digits m @ lit '':'' @ two_digits s"

definition HH_MM_SS :: "nat \<Rightarrow> nat \<Rightarrow> nat \<Rightarrow> jsstring" where
  "HH_MM_SS h m s = (if h < 100 then two_digits h else decimal h) @ lit '':'' @ MM_SS m s"

section \<open>Decoded values\<close>

text \<open>
  A value of TypeScript type \<^verbatim>\<open>any\<close> that came out of \<^verbatim>\<open>JSON.parse\<close>. The code only
  tests such a value for truthiness and hands it to \<^verbatim>\<open>JSON.stringify\<close>. A number is kept
  as sign, decimal digits and power of ten (every binary64 value has such a form), or as
  an infinity (what \<^verbatim>\<open>JSON.parse\<close> gives for a literal beyond the binary64 range).
\<close>

datatype jsnumber = Finite bool nat int | Infinite bool

datatype json =
    JNull
  | JBool bool
  | JNumber jsnumber
  | JString jsstring
  | JArray "json list"
  | JObject "(jsstring \<times> json) list"

text \<open>JavaScript truthiness, as \<^verbatim>\<open>if (x)\<close> tests it: \<open>None\<close> is \<^verbatim>\<open>undefined\<close>. Each
  function returns the value when it is truthy.\<close>

fun truthy :: "json \<Rightarrow> bool" where
  "truthy JNull = False"
| "truthy (JBool b) = b"
| "truthy (JNumber (Finite neg m e)) = (m \<noteq> 0)"
| "truthy (JNumber (Infinite neg)) = True"
| "truthy (JString s) = (s \<noteq> [])"
| "truthy (JArray xs) = True"
| "truthy (JObject kvs) = True"

definition truthyAny :: "json option \<Rightarrow> json option" where
  "truthyAny x = (case x of None \<Rightarrow> None | Some v \<Rightarrow> if truthy v then Some v else None)"

definition truthyString :: "jsstring option \<Rightarrow> jsstring option" where
  "truthyString x = (case x of None \<Rightarrow> None | Some s \<Rightarrow> if s \<noteq> [] then Some s else None)"

definition truthyBool :: "bool option \<Rightarrow> bool" where
  "truthyBool x = (case x of None \<Rightarrow> False | Some b \<Rightarrow> b)"

text \<open>A template literal \<^verbatim>\<open>${x}\<close> on an optional string: \<^verbatim>\<open>undefined\<close> prints as
  its name.\<close>

definition template :: "jsstring option \<Rightarrow> jsstring" where
  "template x = (case x of None \<Rightarrow> lit ''undefined'' | Some s \<Rightarrow> s)"

section \<open>Message interfaces\<close>

text \<open>
  The interfaces \<^verbatim>\<open>ContentItem\<close>, \<^verbatim>\<open>Message\<close> and \<^verbatim>\<open>ChatEntry\<close> of the source, with the
  fields the code reads (\<^verbatim>\<open>id\<close>, \<^verbatim>\<open>tool_use_id\<close>, \<^verbatim>\<open>role\<close>, \<^verbatim>\<open>usage\<close> and \<^verbatim>\<open>tools\<close> are
  never read). An optional field is an \<open>option\<close>. The fields of \<^verbatim>\<open>ContentItem\<close> carry the
  prefix \<open>ci_\<close> and \<^verbatim>\<open>message.content\<close> is \<open>mb_content\<close>.

  The source asserts these shapes without checking them
  (\<^verbatim>\<open>const msg: Message = JSON.parse(...)\<close>); the model covers the lines whose decoded
  value has the declared shape.
\<close>

record ContentItem =
  ci_type :: jsstring
  ci_text :: "jsstring option"
  ci_name :: "jsstring option"
  ci_input :: "json option"
  ci_content :: "json option"
  ci_is_error :: "bool option"

record MessageBody =
  mb_content :: "ContentItem list"

record Message =
  type :: jsstring
  subtype :: "jsstring option"
  message :: "MessageBody option"
  session_id :: "jsstring option"
  model :: "jsstring option"

record ChatEntry =
  lineNumber :: nat
  speaker :: jsstring
  content :: jsstring
  timestamp :: jsstring
  isJSON :: bool
  rawLine :: jsstring

section \<open>The runtime and the world\<close>

text \<open>
  What the program calls and does not define is a parameter of the model:
  \<^item> \<open>JSON_parse_Message\<close> and \<open>JSON_parse\<close> are \<^verbatim>\<open>JSON.parse\<close>, at the type
    \<^verbatim>\<open>Message\<close> the source gives the decoded line and at \<^verbatim>\<open>any\<close>; \<open>None\<close> is a thrown
    \<^verbatim>\<open>SyntaxError\<close>;
  \<^item> \<open>JSON_stringify\<close> is \<^verbatim>\<open>JSON.stringify(v)\<close> and \<open>JSON_stringify_2\<close> is
    \<^verbatim>\<open>JSON.stringify(v, null, 2)\<close>;
  \<^item> \<open>toUpperCase\<close> is \<^verbatim>\<open>String.prototype.toUpperCase\<close>;
  \<^item> \<open>clock n\<close> is \<^verbatim>\<open>Date.now() - startTime.getTime()\<close> as read while line number
    \<open>n\<close> is parsed;
  \<^item> \<open>execSync cmd input\<close> and \<open>writeFileSync path data\<close> are \<open>None\<close> when the call
    returns and \<open>Some err\<close> when it throws, \<open>err\<close> being the error as \<^verbatim>\<open>${err}\<close> prints it.
\<close>

record runtime =
  JSON_parse_Message :: "jsstring \<Rightarrow> Message option"
  JSON_parse :: "jsstring \<Rightarrow> json option"
  JSON_stringify :: "json \<Rightarrow> jsstring"
  JSON_stringify_2 :: "json \<Rightarrow> jsstring"
  toUpperCase :: "jsstring \<Rightarrow> jsstring"
  clock :: "nat \<Rightarrow> int"
  execSync :: "jsstring \<Rightarrow> jsstring \<Rightarrow> jsstring option"
  writeFileSync :: "jsstring \<Rightarrow> jsstring \<Rightarrow> jsstring option"

text \<open>
  The state the program changes: the module variable \<^verbatim>\<open>staticLineNum\<close> (a natural
  number: the program would have to read \<open>2^53\<close> lines before JavaScript's increment
  stopped being exact), the lines written
  with \<^verbatim>\<open>console.log\<close> (\<open>stdout\<close>) and with \<^verbatim>\<open>console.warn\<close> and \<^verbatim>\<open>console.error\<close>
  (\<open>stderr\<close>), and the calls made to \<^verbatim>\<open>execSync\<close> (command and piped input) and to
  \<^verbatim>\<open>writeFileSync\<close> (path and data), in order. What the child process writes to the
  streams it inherits is not part of the model.
\<close>

record world =
  staticLineNum :: nat
  stdout :: "jsstring list"
  stderr :: "jsstring list"
  execs :: "(jsstring \<times> jsstring) list"
  writes :: "(jsstring \<times> jsstring) list"

definition console_log :: "jsstring \<Rightarrow> world \<Rightarrow> world" where
  "console_log s w = w\<lparr>stdout := stdout w @ [s]\<rparr>"

definition console_warn :: "jsstring \<Rightarrow> world \<Rightarrow> world" where
  "console_warn s w = w\<lparr>stderr := stderr w @ [s]\<rparr>"

definition console_error :: "jsstring \<Rightarrow> world \<Rightarrow> world" where
  "console_error s w = w\<lparr>stderr := stderr w @ [s]\<rparr>"

section \<open>Constants of the source\<close>

definition NL :: jsstring where "NL = [0x0A]"

definition ESC :: jsstring where "ESC = [0x1B]"

definition ColorReset :: jsstring where "ColorReset = ESC @ lit ''[0m''"
definition ColorBold :: jsstring where "ColorBold = ESC @ lit ''[1m''"
definition ColorDim :: jsstring where "ColorDim = ESC @ lit ''[2m''"
definition ColorRed :: jsstring where "ColorRed = ESC @ lit ''[31m''"
definition ColorGreen :: jsstring where "ColorGreen = ESC @ lit ''[32m''"
definition ColorYellow :: jsstring where "ColorYellow = ESC @ lit ''[33m''"
definition ColorBlue :: jsstring where "ColorBlue = ESC @ lit ''[34m''"
definition ColorMagenta :: jsstring where "ColorMagenta = ESC @ lit ''[35m''"
definition ColorCyan :: jsstring where "ColorCyan = ESC @ lit ''[36m''"
definition ColorWhite :: jsstring where "ColorWhite = ESC @ lit ''[37m''"
definition ColorGray :: jsstring where "ColorGray = ESC @ lit ''[90m''"

text \<open>The emoji of the source's literals, as UTF-16 code units: wrench U+1F527, cross mark
  U+274C, check mark U+2705, robot U+1F916, bust U+1F464, gear U+2699 U+FE0F.\<close>

definition emoji_wrench :: jsstring where "emoji_wrench = [0xD83D, 0xDD27]"
definition emoji_cross :: jsstring where "emoji_cross = [0x274C]"
definition emoji_check :: jsstring where "emoji_check = [0x2705]"
definition emoji_robot :: jsstring where "emoji_robot = [0xD83E, 0xDD16]"
definition emoji_bust :: jsstring where "emoji_bust = [0xD83D, 0xDC64]"
definition emoji_gear :: jsstring where "emoji_gear = [0x2699, 0xFE0F]"

definition UnknownMessageType :: jsstring where
  "UnknownMessageType = lit ''Unknown message type''"

section \<open>Annotation content: \<^verbatim>\<open>extractCleanJSONContentWithErrorCheck\<close>\<close>

text \<open>
  The progressive-disclosure test and split that the source writes out twice, for a tool
  input with \<^verbatim>\<open>maxPreviewLength = 300\<close> and for a tool result with
  \<^verbatim>\<open>maxPreviewLength = 400\<close>: \<open>needsDisclosure\<close> is the constant of that name,
  \<open>previewRemaining\<close> the assignment of \<^verbatim>\<open>preview\<close> and \<^verbatim>\<open>remaining\<close> made when it is true.
\<close>

definition needsDisclosure :: "nat \<Rightarrow> jsstring \<Rightarrow> bool" where
  "needsDisclosure maxPreviewLength s \<longleftrightarrow>
     length (split_newline s) > 2 \<or> length s > maxPreviewLength"

definition previewRemaining :: "nat \<Rightarrow> jsstring \<Rightarrow> jsstring \<times> jsstring" where
  "previewRemaining maxPreviewLength s =
    (let lines = split_newline s
     in if length lines > 2 then (join NL (take 2 lines), join NL (drop 2 lines))
        else if length s > maxPreviewLength
             then (take maxPreviewLength s @ lit ''...'', drop maxPreviewLength s)
             else (s, []))"

text \<open>The \<^verbatim>\<open>tool_use\<close> case of the assistant loop: the description pushed for one item.\<close>

definition toolUseDescription :: "runtime \<Rightarrow> ContentItem \<Rightarrow> jsstring" where
  "toolUseDescription rt contentItem =
    (let toolInput = (case truthyAny (ci_input contentItem) of
                        Some v \<Rightarrow> JSON_stringify_2 rt v | None \<Rightarrow> []);
         toolDesc = emoji_wrench @ lit '' Using tool: '' @ template (ci_name contentItem)
     in if toolInput \<noteq> [] \<and> toolInput \<noteq> lit ''{}''
        then if \<not> needsDisclosure 300 toolInput
             then toolDesc @ lit '' with '' @ toolInput
             else (case previewRemaining 300 toolInput of (preview, remaining) \<Rightarrow>
               if remaining \<noteq> []
               then toolDesc @ lit '' with '' @ preview @ NL @ NL @ lit ''<details>'' @ NL
                    @ lit ''<summary>Show more input...</summary>'' @ NL @ NL
                    @ lit ''```json'' @ NL @ remaining @ NL @ lit ''```'' @ NL @ NL
                    @ lit ''</details>''
               else toolDesc @ lit '' with '' @ preview)
        else toolDesc)"

fun assistantParts :: "runtime \<Rightarrow> ContentItem list \<Rightarrow> jsstring list" where
  "assistantParts rt [] = []"
| "assistantParts rt (contentItem # rest) =
    (if ci_type contentItem = lit ''text''
     then (case truthyString (ci_text contentItem) of Some t \<Rightarrow> [t] | None \<Rightarrow> [])
     else if ci_type contentItem = lit ''tool_use''
     then [toolUseDescription rt contentItem]
     else []) @ assistantParts rt rest"

text \<open>The \<^verbatim>\<open>tool_result\<close> case of the user loop: \<open>resultContent\<close> is the body to display,
  \<open>toolResultPart\<close> the string pushed for the item.\<close>

definition resultContent :: "runtime \<Rightarrow> ContentItem \<Rightarrow> jsstring" where
  "resultContent rt contentItem =
    (case truthyString (ci_text contentItem) of
       Some t \<Rightarrow> (case JSON_parse rt t of
                    Some jsonObj \<Rightarrow> JSON_stringify_2 rt jsonObj
                  | None \<Rightarrow> t)
     | None \<Rightarrow> (case truthyAny (ci_content contentItem) of
                  Some c \<Rightarrow> JSON_stringify_2 rt c
                | None \<Rightarrow> []))"

definition disclose :: "jsstring \<Rightarrow> jsstring \<Rightarrow> jsstring" where
  "disclose errorIndicator body =
    (if \<not> needsDisclosure 400 body
     then errorIndicator @ NL @ body
     else (case previewRemaining 400 body of (preview, remaining) \<Rightarrow>
       if remaining \<noteq> []
       then errorIndicator @ NL @ preview @ NL @ NL @ lit ''<details>'' @ NL
            @ lit ''<summary>Show more...</summary>'' @ NL @ NL
            @ lit ''```'' @ NL @ remaining @ NL @ lit ''```'' @ NL @ NL @ lit ''</details>''
       else errorIndicator @ NL @ preview))"

definition toolResultPart :: "runtime \<Rightarrow> ContentItem \<Rightarrow> jsstring" where
  "toolResultPart rt contentItem =
    (let body = resultContent rt contentItem
     in if body \<noteq> []
        then disclose (if truthyBool (ci_is_error contentItem)
                       then emoji_cross @ lit '' Tool error:''
                       else emoji_check @ lit '' Tool result:'') body
        else emoji_check @ lit '' Tool result received'')"

text \<open>The user loop threads \<^verbatim>\<open>contentParts\<close> and \<^verbatim>\<open>hasError\<close>.\<close>

fun userLoop :: "runtime \<Rightarrow> ContentItem list \<Rightarrow> jsstring list \<times> bool \<Rightarrow> jsstring list \<times> bool" where
  "userLoop rt [] acc = acc"
| "userLoop rt (contentItem # rest) (contentParts, hasError) =
    (if ci_type contentItem = lit ''tool_result''
     then userLoop rt rest (contentParts @ [toolResultPart rt contentItem],
                            hasError \<or> truthyBool (ci_is_error contentItem))
     else (case truthyString (ci_text contentItem) of
             Some t \<Rightarrow> userLoop rt rest (contentParts @ [t], hasError)
           | None \<Rightarrow> userLoop rt rest (contentParts, hasError)))"

text \<open>The result is \<^verbatim>\<open>{speaker, content, hasError}\<close>, as a triple.\<close>

definition extractCleanJSONContentWithErrorCheck ::
    "runtime \<Rightarrow> Message \<Rightarrow> jsstring \<times> jsstring \<times> bool" where
  "extractCleanJSONContentWithErrorCheck rt msg =
    (if type msg = lit ''system'' then
       (if subtype msg = Some (lit ''init'')
        then (lit ''SYSTEM'',
              lit ''Session initialized (ID: '' @ template (session_id msg) @ lit '', Model: ''
                @ template (model msg) @ lit '')'',
              False)
        else (lit ''SYSTEM'', lit ''System message'', False))
     else if type msg = lit ''assistant'' then
       (lit ''ASSISTANT'',
        (case message msg of
           Some m \<Rightarrow> if length (mb_content m) > 0
                     then join (NL @ NL) (assistantParts rt (mb_content m)) else []
         | None \<Rightarrow> []),
        False)
     else if type msg = lit ''user'' then
       (case message msg of
          Some m \<Rightarrow>
            if length (mb_content m) > 0
            then (case userLoop rt (mb_content m) ([], False) of
                    (contentParts, hasError) \<Rightarrow>
                      (lit ''USER'', join (NL @ NL) contentParts, hasError))
            else (lit ''USER'', [], False)
        | None \<Rightarrow> (lit ''USER'', [], False))
     else (toUpperCase rt (type msg), UnknownMessageType, False))"

section \<open>Console content: \<^verbatim>\<open>formatJSONMessage\<close>\<close>

definition consoleToolUse :: "runtime \<Rightarrow> ContentItem \<Rightarrow> jsstring" where
  "consoleToolUse rt contentItem =
    (let toolInput = (case truthyAny (ci_input contentItem) of
                        Some v \<Rightarrow> JSON_stringify rt v | None \<Rightarrow> []);
         withClause = (if toolInput \<noteq> [] \<and> toolInput \<noteq> lit ''{}''
                       then lit '' with '' @ toolInput else [])
     in ColorGreen @ emoji_wrench @ lit '' Using tool: '' @ template (ci_name contentItem)
        @ withClause @ ColorReset)"

fun consoleAssistantParts :: "runtime \<Rightarrow> ContentItem list \<Rightarrow> jsstring list" where
  "consoleAssistantParts rt [] = []"
| "consoleAssistantParts rt (contentItem # rest) =
    (if ci_type contentItem = lit ''text''
     then (case truthyString (ci_text contentItem) of Some t \<Rightarrow> [t] | None \<Rightarrow> [])
     else if ci_type contentItem = lit ''tool_use''
     then [consoleToolUse rt contentItem]
     else []) @ consoleAssistantParts rt rest"

definition consoleToolResult :: "runtime \<Rightarrow> ContentItem \<Rightarrow> jsstring" where
  "consoleToolResult rt contentItem =
    (let body = resultContent rt contentItem
     in if body \<noteq> []
        then (if truthyBool (ci_is_error contentItem)
              then ColorRed @ emoji_cross @ lit '' Tool error:'' @ ColorReset
              else ColorMagenta @ emoji_check @ lit '' Tool result:'' @ ColorReset)
             @ NL @ body
        else ColorMagenta @ emoji_check @ lit '' Tool result received'' @ ColorReset)"

fun consoleUserParts :: "runtime \<Rightarrow> ContentItem list \<Rightarrow> jsstring list" where
  "consoleUserParts rt [] = []"
| "consoleUserParts rt (contentItem # rest) =
    (if ci_type contentItem = lit ''tool_result''
     then [consoleToolResult rt contentItem]
     else (case truthyString (ci_text contentItem) of Some t \<Rightarrow> [t] | None \<Rightarrow> []))
    @ consoleUserParts rt rest"

text \<open>The result is \<^verbatim>\<open>{speaker, content}\<close>, as a pair.\<close>

definition formatJSONMessage :: "runtime \<Rightarrow> Message \<Rightarrow> jsstring \<times> jsstring" where
  "formatJSONMessage rt msg =
    (if type msg = lit ''system'' then
       (if subtype msg = Some (lit ''init'')
        then (lit ''SYSTEM'',
              lit ''Session initialized (ID: '' @ template (session_id msg) @ lit '', Model: ''
                @ template (model msg) @ lit '')'')
        else (lit ''SYSTEM'', lit ''System message''))
     else if type msg = lit ''assistant'' then
       (lit ''ASSISTANT'',
        (case message msg of
           Some m \<Rightarrow> if length (mb_content m) > 0
                     then join NL (consoleAssistantParts rt (mb_content m)) else []
         | None \<Rightarrow> []))
     else if type msg = lit ''user'' then
       (lit ''USER'',
        (case message msg of
           Some m \<Rightarrow> if length (mb_content m) > 0
                     then join NL (consoleUserParts rt (mb_content m)) else []
         | None \<Rightarrow> []))
     else (toUpperCase rt (type msg), UnknownMessageType))"

section \<open>Per-line processing\<close>

text \<open>\<^verbatim>\<open>parseLine\<close>: \<open>None\<close> is the \<^verbatim>\<open>null\<close> returned for a blank line. The counter is
  incremented before the entry is built, so the entry carries the new value.\<close>

definition parseLine :: "runtime \<Rightarrow> jsstring \<Rightarrow> world \<Rightarrow> ChatEntry option \<times> world" where
  "parseLine rt line0 w =
    (let line = trim line0
     in if line = [] then (None, w)
        else
          (let w' = w\<lparr>staticLineNum := staticLineNum w + 1\<rparr>;
               entry = \<lparr>lineNumber = staticLineNum w',
                        speaker = [],
                        content = [],
                        timestamp = formatRelativeTime (clock rt (staticLineNum w')),
                        isJSON = False,
                        rawLine = line\<rparr>
           in if startsWith line (lit ''{'')
              then (case JSON_parse_Message rt line of
                      Some msg \<Rightarrow>
                        (case formatJSONMessage rt msg of (sp, c) \<Rightarrow>
                          (Some (entry\<lparr>isJSON := True, speaker := sp, content := c\<rparr>), w'))
                    | None \<Rightarrow>
                        (Some (entry\<lparr>speaker := lit ''SYSTEM'', content := line\<rparr>), w'))
              else (Some (entry\<lparr>speaker := lit ''SYSTEM'', content := line\<rparr>), w')))"

text \<open>\<^verbatim>\<open>printSingleEntry\<close>: nothing is printed for an entry with empty content.\<close>

definition speakerColor :: "jsstring \<Rightarrow> jsstring" where
  "speakerColor sp =
    (if sp = lit ''ASSISTANT'' then ColorGreen @ ColorBold
     else if sp = lit ''USER'' then ColorBlue @ ColorBold
     else if sp = lit ''SYSTEM'' then ColorYellow @ ColorBold
     else ColorWhite)"

definition contentColor :: "jsstring \<Rightarrow> jsstring" where
  "contentColor sp =
    (if sp = lit ''ASSISTANT'' then ColorGreen
     else if sp = lit ''USER'' then ColorBlue
     else if sp = lit ''SYSTEM'' then ColorGray
     else ColorWhite)"

definition entryPrefix :: "ChatEntry \<Rightarrow> jsstring" where
  "entryPrefix entry =
     ColorGray @ lit ''['' @ padStart0 3 (decimal (lineNumber entry)) @ lit ''] '' @ ColorDim
     @ lit ''['' @ timestamp entry @ lit '']'' @ ColorReset @ lit '' ''
     @ speakerColor (speaker entry) @ speaker entry @ lit '':'' @ ColorReset"

definition entryLines :: "ChatEntry \<Rightarrow> jsstring list" where
  "entryLines entry =
    (case split_newline (content entry) of
       [] \<Rightarrow> []
     | first # rest \<Rightarrow>
         (padEnd 45 (entryPrefix entry) @ lit '' '' @ contentColor (speaker entry) @ first
            @ ColorReset)
         # map (\<lambda>l. contentColor (speaker entry) @ l @ ColorReset) rest)
    @ (if isJSON entry then [[]] else [])"

definition printSingleEntry :: "ChatEntry \<Rightarrow> world \<Rightarrow> world" where
  "printSingleEntry entry w =
    (if content entry = [] then w
     else w\<lparr>stdout := stdout w @ entryLines entry\<rparr>)"

text \<open>
  \<^verbatim>\<open>createBuildkiteAnnotation\<close>, in the order of the source. \<open>annotationContent\<close> is the
  first \<^verbatim>\<open>if\<close> (speaker, content and error flag; \<open>None\<close> is the early \<^verbatim>\<open>return\<close> for
  content equal to \<^verbatim>\<open>"Unknown message type"\<close>), \<open>speakerHeading\<close> the \<^verbatim>\<open>switch\<close> (the
  heading appended and the style), \<open>jsonDisclosure\<close> the text put in the
  \<^verbatim>\<open>Show JSON\<close> block. \<open>buildAnnotation\<close> is everything up to the command: \<open>None\<close>
  when the function returns without running it.
\<close>

record Annotation =
  ann_style :: jsstring
  ann_context :: jsstring
  ann_body :: jsstring

definition annotationContent :: "runtime \<Rightarrow> jsstring \<Rightarrow> (jsstring \<times> jsstring \<times> bool) option" where
  "annotationContent rt rawJSONLine =
    (if startsWith rawJSONLine (lit ''{'')
     then (case JSON_parse_Message rt rawJSONLine of
             Some msg \<Rightarrow>
               (case extractCleanJSONContentWithErrorCheck rt msg of (sp, c, hasError) \<Rightarrow>
                  if c = UnknownMessageType then None else Some (sp, c, hasError))
           | None \<Rightarrow> Some (lit ''SYSTEM'', rawJSONLine, False))
     else Some (lit ''SYSTEM'', rawJSONLine, False))"

definition speakerHeading :: "jsstring \<Rightarrow> bool \<Rightarrow> jsstring \<times> jsstring" where
  "speakerHeading sp hasError =
    (if sp = lit ''ASSISTANT''
     then (emoji_robot @ lit '' **ASSISTANT**:'' @ NL @ NL, lit ''info'')
     else if sp = lit ''USER''
     then (emoji_bust @ lit '' **USER**:'' @ NL @ NL,
           if hasError then lit ''error'' else lit ''success'')
     else if sp = lit ''SYSTEM''
     then (emoji_gear @ lit '' **SYSTEM**:'' @ NL @ NL, lit ''warning'')
     else (lit ''**'' @ sp @ lit ''**:'' @ NL @ NL, lit ''info''))"

definition jsonDisclosure :: "runtime \<Rightarrow> jsstring \<Rightarrow> jsstring" where
  "jsonDisclosure rt rawJSONLine =
    (if startsWith rawJSONLine (lit ''{'')
     then (case JSON_parse rt rawJSONLine of
             Some jsonObj \<Rightarrow> JSON_stringify_2 rt jsonObj
           | None \<Rightarrow> rawJSONLine)
     else rawJSONLine)"

definition buildAnnotation :: "runtime \<Rightarrow> jsstring \<Rightarrow> nat \<Rightarrow> jsstring \<Rightarrow> Annotation option" where
  "buildAnnotation rt rawJSONLine0 n ts =
    (let rawJSONLine = trim rawJSONLine0
     in if rawJSONLine = [] then None
        else (case annotationContent rt rawJSONLine of
                None \<Rightarrow> None
              | Some (sp, c, hasError) \<Rightarrow>
                  (case speakerHeading sp hasError of (heading, style) \<Rightarrow>
                     Some \<lparr>ann_style = style,
                           ann_context = lit ''chat-message-'' @ decimal n,
                           ann_body =
                             lit ''**Message '' @ decimal n @ lit ''** - `'' @ ts @ lit ''`'' @ NL @ NL
                             @ heading @ c
                             @ NL @ NL @ lit ''<details>'' @ NL @ lit ''<summary>Show JSON</summary>''
                             @ NL @ NL @ lit ''```json'' @ NL
                             @ jsonDisclosure rt rawJSONLine
                             @ NL @ lit ''```'' @ NL @ NL @ lit ''</details>''\<rparr>)))"

definition annotateCommand :: "Annotation \<Rightarrow> jsstring" where
  "annotateCommand a =
     lit ''buildkite-agent annotate --style '' @ ann_style a @ lit '' --context ''
     @ ann_context a @ lit '' --priority 5''"

definition annotationWarning :: "jsstring \<Rightarrow> jsstring" where
  "annotationWarning err = lit ''Warning: Failed to create Buildkite annotation: '' @ err"

definition createBuildkiteAnnotation :: "runtime \<Rightarrow> jsstring \<Rightarrow> nat \<Rightarrow> jsstring \<Rightarrow> world \<Rightarrow> world" where
  "createBuildkiteAnnotation rt rawJSONLine n ts w =
    (case buildAnnotation rt rawJSONLine n ts of
       None \<Rightarrow> w
     | Some a \<Rightarrow>
         (let w' = w\<lparr>execs := execs w @ [(annotateCommand a, ann_body a)]\<rparr>
          in case execSync rt (annotateCommand a) (ann_body a) of
               None \<Rightarrow> w'
             | Some err \<Rightarrow> console_warn (annotationWarning err) w'))"

text \<open>The body of the \<^verbatim>\<open>"line"\<close> handler, the same in \<^verbatim>\<open>parseAndStreamOutput\<close> and (after
  the push to \<^verbatim>\<open>lines\<close>) in \<^verbatim>\<open>parseAndStreamOutputWithFile\<close>.\<close>

definition onLine :: "runtime \<Rightarrow> jsstring \<Rightarrow> world \<Rightarrow> world" where
  "onLine rt line w =
    (case parseLine rt line w of
       (None, w') \<Rightarrow> w'
     | (Some entry, w') \<Rightarrow>
         createBuildkiteAnnotation rt line (lineNumber entry) (timestamp entry)
           (printSingleEntry entry w'))"

section \<open>Streams and \<^verbatim>\<open>main\<close>\<close>

text \<open>
  The events of the \<^verbatim>\<open>readline\<close> interface, in the order they fire. A promise is
  \<open>Resolved\<close>, \<open>Rejected\<close> with an error, or still \<open>Pending\<close> when the events seen so
  far hold neither \<^verbatim>\<open>close\<close> nor \<^verbatim>\<open>error\<close>. \<^verbatim>\<open>main\<close> leaves the stream once the promise
  is settled, so the events after that are not handled.
\<close>

datatype event = Line jsstring | Close | Error jsstring

datatype promise = Resolved | Rejected jsstring | Pending

fun parseAndStreamOutput :: "runtime \<Rightarrow> event list \<Rightarrow> world \<Rightarrow> promise \<times> world" where
  "parseAndStreamOutput rt [] w = (Pending, w)"
| "parseAndStreamOutput rt (Line line # evs) w = parseAndStreamOutput rt evs (onLine rt line w)"
| "parseAndStreamOutput rt (Close # evs) w = (Resolved, w)"
| "parseAndStreamOutput rt (Error err # evs) w = (Rejected err, w)"

text \<open>\<^verbatim>\<open>parseAndStreamOutputWithFile\<close>: the third argument is the array \<^verbatim>\<open>lines\<close>, empty at
  the call.\<close>

fun streamWithFile :: "runtime \<Rightarrow> jsstring \<Rightarrow> jsstring list \<Rightarrow> event list \<Rightarrow> world \<Rightarrow> promise \<times> world" where
  "streamWithFile rt outputFilename lines [] w = (Pending, w)"
| "streamWithFile rt outputFilename lines (Line line # evs) w =
     streamWithFile rt outputFilename (lines @ [line]) evs (onLine rt line w)"
| "streamWithFile rt outputFilename lines (Close # evs) w =
    (let data = join NL lines @ NL;
         w' = w\<lparr>writes := writes w @ [(outputFilename, data)]\<rparr>
     in case writeFileSync rt outputFilename data of
          None \<Rightarrow> (Resolved, w')
        | Some err \<Rightarrow> (Rejected err, w'))"
| "streamWithFile rt outputFilename lines (Error err # evs) w = (Rejected err, w)"

definition parseAndStreamOutputWithFile :: "runtime \<Rightarrow> event list \<Rightarrow> jsstring \<Rightarrow> world \<Rightarrow> promise \<times> world" where
  "parseAndStreamOutputWithFile rt evs outputFilename w = streamWithFile rt outputFilename [] evs w"

definition printUsage :: "world \<Rightarrow> world" where
  "printUsage w = w\<lparr>stdout := stdout w @
     [lit ''Usage: chat-parser <input-file>'',
      lit ''       cat <input-file> | chat-parser -'',
      lit ''       cat <input-file> | chat-parser - -o <output-file>'',
      [],
      lit ''Options:'',
      lit ''  -o <file>    Save output to file (only when streaming from stdin)'']\<rparr>"

text \<open>
  The argument loop of \<^verbatim>\<open>main\<close>, over the arguments still to read, with
  \<^verbatim>\<open>outputFile\<close> and \<^verbatim>\<open>inputSource\<close> as set so far. \<open>Inl w\<close> is \<^verbatim>\<open>process.exit(1)\<close> in
  the world \<open>w\<close>; \<open>Inr\<close> gives the two variables after the loop.
\<close>

fun parseArgs :: "jsstring list \<Rightarrow> jsstring \<Rightarrow> jsstring \<Rightarrow> world \<Rightarrow> world + jsstring \<times> jsstring" where
  "parseArgs [] outputFile inputSource w = Inr (outputFile, inputSource)"
| "parseArgs (arg # rest) outputFile inputSource w =
    (if arg = lit ''-o'' then
       (case rest of
          [] \<Rightarrow> Inl (printUsage (console_log (lit ''Error: -o requires a filename'') w))
        | filename # rest' \<Rightarrow> parseArgs rest' filename inputSource w)
     else if arg = lit ''-'' then parseArgs rest outputFile (lit ''-'') w
     else if inputSource = [] then parseArgs rest outputFile arg w
     else Inl (printUsage (console_log (lit ''Error: unexpected argument '' @ [0x27] @ arg @ [0x27]) w)))"

text \<open>
  \<^verbatim>\<open>main\<close>: \<open>args\<close> is \<^verbatim>\<open>process.argv.slice(2)\<close>, \<open>evs\<close> the events of the input the
  interface is opened on. The result is the exit status (\<open>Some 1\<close> for
  \<^verbatim>\<open>process.exit(1)\<close>, \<open>Some 0\<close> when \<^verbatim>\<open>main\<close> runs to its end, \<open>None\<close> while the promise is
  pending) and the world.
\<close>

definition main :: "runtime \<Rightarrow> jsstring list \<Rightarrow> event list \<Rightarrow> world \<Rightarrow> nat option \<times> world" where
  "main rt args evs w =
    (if length args = 0 then (Some 1, printUsage w)
     else case parseArgs args [] [] w of
       Inl w' \<Rightarrow> (Some 1, w')
     | Inr (outputFile, inputSource) \<Rightarrow>
         if inputSource = [] then (Some 1, printUsage w)
         else
           (let isStreaming = (inputSource = lit ''-'')
            in if outputFile \<noteq> [] \<and> \<not> isStreaming
               then (Some 1, console_log
                       (lit ''Error: -o option can only be used when streaming from stdin'') w)
               else
                 (let w1 = console_log []
                        (console_log (ColorCyan @ ColorBold
                           @ lit ''=== Claude Code Chat Transcript ==='' @ ColorReset) w)
                  in case (if outputFile \<noteq> []
                           then parseAndStreamOutputWithFile rt evs outputFile w1
                           else parseAndStreamOutput rt evs w1) of
                       (Resolved, w2) \<Rightarrow> (Some 0, w2)
                     | (Rejected err, w2) \<Rightarrow> (Some 1, console_error (lit ''Error: '' @ err) w2)
                     | (Pending, w2) \<Rightarrow> (None, w2))))"

section \<open>A reference runtime\<close>

text \<open>
  An executable instance of the runtime, to run the model on concrete lines. Its JSON
  reader follows the ECMA-404 grammar as \<^verbatim>\<open>JSON.parse\<close> reads it and its printer follows
  \<^verbatim>\<open>JSON.stringify\<close>, with two limits: a number is kept as the exact decimal of its
  literal (no rounding to binary64, no overflow to infinity), and \<open>toUpperCase\<close> maps the
  ASCII letters only. The theorems below are stated for every runtime; this one appears
  where a closed example needs a concrete runtime.
\<close>

definition isJSONWhiteSpace :: "jschar \<Rightarrow> bool" where
  "isJSONWhiteSpace c \<longleftrightarrow> c = 0x20 \<or> c = 0x09 \<or> c = 0x0A \<or> c = 0x0D"

definition skipWS :: "jsstring \<Rightarrow> jsstring" where
  "skipWS s = dropWhile isJSONWhiteSpace s"

definition isDigit :: "jschar \<Rightarrow> bool" where
  "isDigit c \<longleftrightarrow> 0x30 \<le> c \<and> c \<le> 0x39"

definition digitValue :: "jschar \<Rightarrow> nat" where
  "digitValue c = unat c - 48"

definition digitsValue :: "jsstring \<Rightarrow> nat" where
  "digitsValue ds = foldl (\<lambda>acc c. 10 * acc + digitValue c) 0 ds"

definition hexValue :: "jschar \<Rightarrow> nat option" where
  "hexValue c =
    (if 0x30 \<le> c \<and> c \<le> 0x39 then Some (unat c - 48)
     else if 0x41 \<le> c \<and> c \<le> 0x46 then Some (unat c - 55)
     else if 0x61 \<le> c \<and> c \<le> 0x66 then Some (unat c - 87)
     else None)"

text \<open>The character an escape letter stands for, the \<^verbatim>\<open>\u\<close> escape apart.\<close>

definition escapeChar :: "jschar \<Rightarrow> jschar option" where
  "escapeChar c =
    (if c = 0x22 \<or> c = 0x5C \<or> c = 0x2F then Some c
     else if c = 0x62 then Some 0x08
     else if c = 0x66 then Some 0x0C
     else if c = 0x6E then Some 0x0A
     else if c = 0x72 then Some 0x0D
     else if c = 0x74 then Some 0x09
     else None)"

text \<open>One character of a string body, plain or escaped, and the input after it.\<close>

definition parseStringChar :: "jsstring \<Rightarrow> (jschar \<times> jsstring) option" where
  "parseStringChar s =
    (case s of
       [] \<Rightarrow> None
     | c # cs \<Rightarrow>
         if c = 0x5C then
           (case cs of
              [] \<Rightarrow> None
            | e # cs' \<Rightarrow>
                if e = 0x75 then
                  (if length cs' < 4 then None
                   else (case map hexValue (take 4 cs') of
                           [Some h1, Some h2, Some h3, Some h4] \<Rightarrow>
                             Some (of_nat (((h1 * 16 + h2) * 16 + h3) * 16 + h4), drop 4 cs')
                         | _ \<Rightarrow> None))
                else (case escapeChar e of Some x \<Rightarrow> Some (x, cs') | None \<Rightarrow> None))
         else if c < 0x20 then None
         else Some (c, cs))"

text \<open>A string, read after its opening quote: the decoded string and the input after the
  closing quote. The first argument bounds the number of characters read.\<close>

primrec parseString :: "nat \<Rightarrow> jsstring \<Rightarrow> (jsstring \<times> jsstring) option" where
  "parseString 0 s = None"
| "parseString (Suc n) s =
    (if s \<noteq> [] \<and> hd s = 0x22 then Some ([], tl s)
     else (case parseStringChar s of
             None \<Rightarrow> None
           | Some (x, r) \<Rightarrow>
               (case parseString n r of
                  None \<Rightarrow> None
                | Some (str, r') \<Rightarrow> Some (x # str, r'))))"

text \<open>A number literal: optional minus, integer part without a leading zero, optional
  fraction, optional exponent.\<close>

definition parseNumber :: "jsstring \<Rightarrow> (jsnumber \<times> jsstring) option" where
  "parseNumber s =
    (let neg = (s \<noteq> [] \<and> hd s = 0x2D);
         s1 = (if neg then tl s else s);
         ip = takeWhile isDigit s1;
         s2 = dropWhile isDigit s1
     in if ip = [] \<or> (length ip > 1 \<and> hd ip = 0x30) then None
        else
          (let hasFrac = (s2 \<noteq> [] \<and> hd s2 = 0x2E);
               fp = (if hasFrac then takeWhile isDigit (tl s2) else []);
               s3 = (if hasFrac then dropWhile isDigit (tl s2) else s2)
           in if hasFrac \<and> fp = [] then None
              else
                (let hasExp = (s3 \<noteq> [] \<and> (hd s3 = 0x65 \<or> hd s3 = 0x45));
                     s4 = (if hasExp then tl s3 else s3);
                     eneg = (hasExp \<and> s4 \<noteq> [] \<and> hd s4 = 0x2D);
                     s5 = (if hasExp \<and> s4 \<noteq> [] \<and> (hd s4 = 0x2D \<or> hd s4 = 0x2B)
                           then tl s4 else s4);
                     ep = (if hasExp then takeWhile isDigit s5 else []);
                     s6 = (if hasExp then dropWhile isDigit s5 else s3)
                 in if hasExp \<and> ep = [] then None
                    else Some (Finite neg (digitsValue (ip @ fp))
                                 ((if eneg then - int (digitsValue ep) else int (digitsValue ep))
                                  - int (length fp)),
                               s6))))"

text \<open>The key order of a decoded object: a repeated key keeps its first place and its last
  value; keys that are array indices come first, in ascending order.\<close>

fun putMember :: "jsstring \<Rightarrow> json \<Rightarrow> (jsstring \<times> json) list \<Rightarrow> (jsstring \<times> json) list" where
  "putMember k v [] = [(k, v)]"
| "putMember k v ((k', v') # kvs) =
    (if k = k' then (k, v) # kvs else (k', v') # putMember k v kvs)"

definition isArrayIndex :: "jsstring \<Rightarrow> bool" where
  "isArrayIndex k \<longleftrightarrow> k \<noteq> [] \<and> list_all isDigit k \<and> (length k = 1 \<or> hd k \<noteq> 0x30)
     \<and> digitsValue k < 4294967295"

definition orderMembers :: "(jsstring \<times> json) list \<Rightarrow> (jsstring \<times> json) list" where
  "orderMembers kvs =
     sort_key (\<lambda>kv. digitsValue (fst kv)) (filter (\<lambda>kv. isArrayIndex (fst kv)) kvs)
     @ filter (\<lambda>kv. \<not> isArrayIndex (fst kv)) kvs"

text \<open>
  Values, by recursive descent. A goal says what is read next: a value, the rest of an
  array after one of its elements, the rest of an object after one of its members, or a
  member. Each step takes the parser for the goals it continues with; \<open>parseGoal\<close> ties
  them together, its first argument bounding the depth of the calls, and \<open>parseJSON\<close>
  starts it with more than the input can use.
\<close>

datatype goal =
    Value
  | Elements "json list"
  | Members "(jsstring \<times> json) list"
  | Member "(jsstring \<times> json) list"

type_synonym parser = "goal \<Rightarrow> jsstring \<Rightarrow> (json \<times> jsstring) option"

definition valueStep :: "parser \<Rightarrow> jsstring \<Rightarrow> (json \<times> jsstring) option" where
  "valueStep rec s =
    (case skipWS s of
       [] \<Rightarrow> None
     | c # cs \<Rightarrow>
         if c = 0x7B then
           (if skipWS cs \<noteq> [] \<and> hd (skipWS cs) = 0x7D then Some (JObject [], tl (skipWS cs))
            else rec (Member []) (skipWS cs))
         else if c = 0x5B then
           (if skipWS cs \<noteq> [] \<and> hd (skipWS cs) = 0x5D then Some (JArray [], tl (skipWS cs))
            else (case rec Value cs of
                    Some (v, r) \<Rightarrow> rec (Elements [v]) r
                  | None \<Rightarrow> None))
         else if c = 0x22 then
           (case parseString (length cs) cs of
              Some (str, r) \<Rightarrow> Some (JString str, r)
            | None \<Rightarrow> None)
         else if startsWith (c # cs) (lit ''true'') then Some (JBool True, drop 4 (c # cs))
         else if startsWith (c # cs) (lit ''false'') then Some (JBool False, drop 5 (c # cs))
         else if startsWith (c # cs) (lit ''null'') then Some (JNull, drop 4 (c # cs))
         else (case parseNumber (c # cs) of
                 Some (num, r) \<Rightarrow> Some (JNumber num, r)
               | None \<Rightarrow> None))"

definition elementsStep :: "parser \<Rightarrow> json list \<Rightarrow> jsstring \<Rightarrow> (json \<times> jsstring) option" where
  "elementsStep rec acc s =
    (case skipWS s of
       [] \<Rightarrow> None
     | c # cs \<Rightarrow>
         if c = 0x5D then Some (JArray acc, cs)
         else if c = 0x2C then
           (case rec Value cs of
              Some (v, r) \<Rightarrow> rec (Elements (acc @ [v])) r
            | None \<Rightarrow> None)
         else None)"

definition membersStep :: "parser \<Rightarrow> (jsstring \<times> json) list \<Rightarrow> jsstring \<Rightarrow> (json \<times> jsstring) option" where
  "membersStep rec acc s =
    (case skipWS s of
       [] \<Rightarrow> None
     | c # cs \<Rightarrow>
         if c = 0x7D then Some (JObject (orderMembers acc), cs)
         else if c = 0x2C then rec (Member acc) (skipWS cs)
         else None)"

definition memberStep :: "parser \<Rightarrow> (jsstring \<times> json) list \<Rightarrow> jsstring \<Rightarrow> (json \<times> jsstring) option" where
  "memberStep rec acc s =
    (case s of
       [] \<Rightarrow> None
     | c # cs \<Rightarrow>
         if c = 0x22 then
           (case parseString (length cs) cs of
              Some (k, r) \<Rightarrow>
                (case skipWS r of
                   [] \<Rightarrow> None
                 | d # ds \<Rightarrow>
                     if d = 0x3A then
                       (case rec Value ds of
                          Some (v, r') \<Rightarrow> rec (Members (putMember k v acc)) r'
                        | None \<Rightarrow> None)
                     else None)
            | None \<Rightarrow> None)
         else None)"

primrec parseGoal :: "nat \<Rightarrow> goal \<Rightarrow> jsstring \<Rightarrow> (json \<times> jsstring) option" where
  "parseGoal 0 g s = None"
| "parseGoal (Suc n) g s =
    (case g of
       Value \<Rightarrow> valueStep (parseGoal n) s
     | Elements acc \<Rightarrow> elementsStep (parseGoal n) acc s
     | Members acc \<Rightarrow> membersStep (parseGoal n) acc s
     | Member acc \<Rightarrow> memberStep (parseGoal n) acc s)"

definition parseJSON :: "jsstring \<Rightarrow> json option" where
  "parseJSON s =
    (case parseGoal (2 * length s + 2) Value s of
       Some (v, r) \<Rightarrow> if skipWS r = [] then Some v else None
     | None \<Rightarrow> None)"

text \<open>\<^verbatim>\<open>Number::toString\<close> on the decimal form: \<open>ds\<close> are the significant digits and the
  value is \<open>0.ds \<times> 10^n\<close>.\<close>

definition stripZeros :: "nat \<Rightarrow> int \<Rightarrow> nat \<times> int" where
  "stripZeros m e =
    (let z = length (takeWhile (\<lambda>c. c = digit 0) (rev (decimal m)))
     in (m div 10 ^ z, e + int z))"

definition numberToString :: "jsnumber \<Rightarrow> jsstring" where
  "numberToString x =
    (case x of
       Infinite neg \<Rightarrow> (if neg then lit ''-Infinity'' else lit ''Infinity'')
     | Finite neg m e \<Rightarrow>
         if m = 0 then lit ''0''
         else
           (case stripZeros m e of (m', e') \<Rightarrow>
             (let ds = decimal m';
                  k = int (length ds);
                  n = k + e';
                  body =
                    (if k \<le> n \<and> n \<le> 21 then ds @ replicate (nat (n - k)) (digit 0)
                     else if 0 < n \<and> n \<le> 21 then take (nat n) ds @ lit ''.'' @ drop (nat n) ds
                     else if - 6 < n \<and> n \<le> 0
                     then lit ''0.'' @ replicate (nat (- n)) (digit 0) @ ds
                     else (if k = 1 then ds else take 1 ds @ lit ''.'' @ drop 1 ds)
                          @ lit ''e'' @ (if n - 1 < 0 then lit ''-'' else lit ''+'')
                          @ decimal (nat \<bar>n - 1\<bar>))
              in (if neg then lit ''-'' else []) @ body)))"

text \<open>\<^verbatim>\<open>QuoteJSONString\<close>: the short escapes, \<^verbatim>\<open>\u\<close> escapes for the other control
  characters and for a surrogate without its partner.\<close>

definition hexDigit :: "nat \<Rightarrow> jschar" where
  "hexDigit d = (if d < 10 then of_nat (48 + d) else of_nat (87 + d))"

definition unicodeEscape :: "jschar \<Rightarrow> jsstring" where
  "unicodeEscape c =
    (let v = unat c
     in [0x5C, 0x75] @ [hexDigit (v div 4096), hexDigit (v div 256 mod 16),
                      hexDigit (v div 16 mod 16), hexDigit (v mod 16)])"

definition isHighSurrogate :: "jschar \<Rightarrow> bool" where
  "isHighSurrogate c \<longleftrightarrow> 0xD800 \<le> c \<and> c \<le> 0xDBFF"

definition isLowSurrogate :: "jschar \<Rightarrow> bool" where
  "isLowSurrogate c \<longleftrightarrow> 0xDC00 \<le> c \<and> c \<le> 0xDFFF"

fun quoteChars :: "jsstring \<Rightarrow> jsstring" where
  "quoteChars [] = []"
| "quoteChars [c] =
    (if c = 0x22 then [0x5C, 0x22] else if c = 0x5C then [0x5C, 0x5C]
     else if c = 0x08 then [0x5C, 0x62] else if c = 0x0C then [0x5C, 0x66]
     else if c = 0x0A then [0x5C, 0x6E] else if c = 0x0D then [0x5C, 0x72]
     else if c = 0x09 then [0x5C, 0x74]
     else if c < 0x20 \<or> isHighSurrogate c \<or> isLowSurrogate c then unicodeEscape c
     else [c])"
| "quoteChars (c # d # cs) =
    (if isHighSurrogate c \<and> isLowSurrogate d then c # d # quoteChars cs
     else quoteChars [c] @ quoteChars (d # cs))"

definition quoteJSONString :: "jsstring \<Rightarrow> jsstring" where
  "quoteJSONString s = [0x22] @ quoteChars s @ [0x22]"

text \<open>
  \<^verbatim>\<open>JSON.stringify(v, null, gap)\<close>: \<open>gap\<close> is the indentation unit (empty for the compact
  form) and \<open>indent\<close> the current indentation.
\<close>

primrec serialize :: "jsstring \<Rightarrow> json \<Rightarrow> jsstring \<Rightarrow> jsstring" where
  "serialize gap JNull indent = lit ''null''"
| "serialize gap (JBool b) indent = (if b then lit ''true'' else lit ''false'')"
| "serialize gap (JNumber x) indent =
    (case x of Infinite neg \<Rightarrow> lit ''null'' | Finite neg m e \<Rightarrow> numberToString x)"
| "serialize gap (JString s) indent = quoteJSONString s"
| "serialize gap (JArray xs) indent =
    (if xs = [] then lit ''[]''
     else if gap = [] then lit ''['' @ join (lit '','') (map (\<lambda>x. serialize gap x indent) xs) @ lit '']''
     else lit ''['' @ NL @ indent @ gap
          @ join (lit '','' @ NL @ indent @ gap) (map (\<lambda>x. serialize gap x (indent @ gap)) xs)
          @ NL @ indent @ lit '']'')"
| "serialize gap (JObject kvs) indent =
    (if kvs = [] then lit ''{}''
     else if gap = []
     then lit ''{'' @ join (lit '','')
            (map (\<lambda>(k, v). quoteJSONString k @ lit '':'' @ v)
              (map (map_prod id (\<lambda>v. serialize gap v indent)) kvs))
          @ lit ''}''
     else lit ''{'' @ NL @ indent @ gap
          @ join (lit '','' @ NL @ indent @ gap)
              (map (\<lambda>(k, v). quoteJSONString k @ lit '': '' @ v)
                (map (map_prod id (\<lambda>v. serialize gap v (indent @ gap))) kvs))
          @ NL @ indent @ lit ''}'')"

text \<open>
  Reading a decoded value at the declared interfaces. A field that is absent is \<open>None\<close>;
  a value that does not have the declared shape is outside the model, and the reference
  runtime does not decode it.
\<close>

definition optString :: "json option \<Rightarrow> jsstring option option" where
  "optString x = (case x of None \<Rightarrow> Some None | Some (JString s) \<Rightarrow> Some (Some s) | _ \<Rightarrow> None)"

definition optBool :: "json option \<Rightarrow> bool option option" where
  "optBool x = (case x of None \<Rightarrow> Some None | Some (JBool b) \<Rightarrow> Some (Some b) | _ \<Rightarrow> None)"

definition reqString :: "json option \<Rightarrow> jsstring option" where
  "reqString x = (case x of Some (JString s) \<Rightarrow> Some s | _ \<Rightarrow> None)"

definition asContentItem :: "json \<Rightarrow> ContentItem option" where
  "asContentItem v =
    (case v of
       JObject kvs \<Rightarrow>
         (case reqString (map_of kvs (lit ''type'')) of None \<Rightarrow> None | Some t \<Rightarrow>
         (case optString (map_of kvs (lit ''text'')) of None \<Rightarrow> None | Some tx \<Rightarrow>
         (case optString (map_of kvs (lit ''name'')) of None \<Rightarrow> None | Some nm \<Rightarrow>
         (case optBool (map_of kvs (lit ''is_error'')) of None \<Rightarrow> None | Some er \<Rightarrow>
            Some \<lparr>ci_type = t, ci_text = tx, ci_name = nm,
                  ci_input = map_of kvs (lit ''input''),
                  ci_content = map_of kvs (lit ''content''),
                  ci_is_error = er\<rparr>))))
     | _ \<Rightarrow> None)"

fun allSome :: "'a option list \<Rightarrow> 'a list option" where
  "allSome [] = Some []"
| "allSome (None # xs) = None"
| "allSome (Some x # xs) = (case allSome xs of None \<Rightarrow> None | Some ys \<Rightarrow> Some (x # ys))"

definition asMessageBody :: "json option \<Rightarrow> MessageBody option option" where
  "asMessageBody x =
    (case x of
       None \<Rightarrow> Some None
     | Some (JObject kvs) \<Rightarrow>
         (case map_of kvs (lit ''content'') of
            Some (JArray items) \<Rightarrow>
              (case allSome (map asContentItem items) of
                 Some cs \<Rightarrow> Some (Some \<lparr>mb_content = cs\<rparr>)
               | None \<Rightarrow> None)
          | _ \<Rightarrow> None)
     | _ \<Rightarrow> None)"

definition asMessage :: "json \<Rightarrow> Message option" where
  "asMessage v =
    (case v of
       JObject kvs \<Rightarrow>
         (case reqString (map_of kvs (lit ''type'')) of None \<Rightarrow> None | Some t \<Rightarrow>
         (case optString (map_of kvs (lit ''subtype'')) of None \<Rightarrow> None | Some st \<Rightarrow>
         (case asMessageBody (map_of kvs (lit ''message'')) of None \<Rightarrow> None | Some mb \<Rightarrow>
         (case optString (map_of kvs (lit ''session_id'')) of None \<Rightarrow> None | Some sid \<Rightarrow>
         (case optString (map_of kvs (lit ''model'')) of None \<Rightarrow> None | Some md \<Rightarrow>
            Some \<lparr>type = t, subtype = st, message = mb, session_id = sid, model = md\<rparr>)))))
     | _ \<Rightarrow> None)"

definition asciiUpper :: "jschar \<Rightarrow> jschar" where
  "asciiUpper c = (if 0x61 \<le> c \<and> c \<le> 0x7A then c - 0x20 else c)"

text \<open>The reference runtime: the clock stands at zero and every command and file write
  succeeds, unless a field is updated.\<close>

definition reference_runtime :: runtime where
  "reference_runtime =
    \<lparr>JSON_parse_Message = (\<lambda>s. case parseJSON s of None \<Rightarrow> None | Some v \<Rightarrow> asMessage v),
     JSON_parse = parseJSON,
     JSON_stringify = (\<lambda>v. serialize [] v []),
     JSON_stringify_2 = (\<lambda>v. serialize (lit ''  '') v []),
     toUpperCase = map asciiUpper,
     clock = (\<lambda>n. 0),
     execSync = (\<lambda>cmd input. None),
     writeFileSync = (\<lambda>path data. None)\<rparr>"

definition world0 :: world where
  "world0 = \<lparr>staticLineNum = 0, stdout = [], stderr = [], execs = [], writes = []\<rparr>"

section \<open>Example inputs\<close>


text \<open>Scenario B of the specification: the line and the message it decodes to.\<close>

definition scenarioB_line :: jsstring where
  \<open>scenarioB_line = lit
    ''{"type":"user","message":{"content":[{"type":"tool_result","is_error":true,"text":"boom"}]}}''\<close>

definition scenarioB_message :: Message where
  "scenarioB_message =
    \<lparr>type = lit ''user'', subtype = None,
     message = Some \<lparr>mb_content =
       [\<lparr>ci_type = lit ''tool_result'', ci_text = Some (lit ''boom''), ci_name = None,
         ci_input = None, ci_content = None, ci_is_error = Some True\<rparr>]\<rparr>,
     session_id = None, model = None\<rparr>"

text \<open>An assistant event whose only content item is the text \<^verbatim>\<open>Unknown message type\<close>.\<close>

definition marker_text_line :: jsstring where
  \<open>marker_text_line = lit
    ''{"type":"assistant","message":{"content":[{"type":"text","text":"Unknown message type"}]}}''\<close>

text \<open>The error flag as the specification words it: some \<^verbatim>\<open>tool_result\<close> content item of
  the event carries the error marker.\<close>

definition errorFlagged :: "Message \<Rightarrow> bool" where
  "errorFlagged msg =
    (case message msg of
       None \<Rightarrow> False
     | Some m \<Rightarrow> list_ex (\<lambda>contentItem. ci_type contentItem = lit ''tool_result''
                               \<and> truthyBool (ci_is_error contentItem)) (mb_content m))"

text \<open>The reference runtime with a failing annotate command.\<close>

definition failing_runtime :: runtime where
  "failing_runtime =
     reference_runtime\<lparr>execSync := \<lambda>cmd input. Some (lit ''Error: Command failed'')\<rparr>"

text \<open>Scenario D of the specification, as the annotation it leads to for line number 1 at
  time stamp \<^verbatim>\<open>00:00\<close>.\<close>

definition scenarioD_annotation :: Annotation where
  "scenarioD_annotation =
    \<lparr>ann_style = lit ''warning'',
     ann_context = lit ''chat-message-1'',
     ann_body = lit ''**Message 1** - `00:00`'' @ NL @ NL @ emoji_gear @ lit '' **SYSTEM**:'' @ NL @ NL
       @ lit ''hello world'' @ NL @ NL @ lit ''<details>'' @ NL @ lit ''<summary>Show JSON</summary>''
       @ NL @ NL @ lit ''```json'' @ NL @ lit ''hello world'' @ NL @ lit ''```'' @ NL @ NL
       @ lit ''</details>''\<rparr>"

text \<open>An assistant event with no content items, and an event of a type the program does
  not know.\<close>

definition empty_assistant_line :: jsstring where
  \<open>empty_assistant_line = lit ''{"type":"assistant","message":{"content":[]}}''\<close>

definition result_line :: jsstring where
  \<open>result_line = lit ''{"type":"result"}''\<close>

section \<open>Properties\<close>

subsection \<open>Strings\<close>

lemma lit_eq_Nil [simp]: "lit s = [] \<longleftrightarrow> s = []"
  by (simp add: lit_def)

lemma length_lit [simp]: "length (lit s) = length s"
  by (simp add: lit_def)

lemma unat_of_char_16: "unat (of_char c :: jschar) = of_char c"
proof -
  have "(of_char c :: nat) < 2 ^ 16"
    by (rule order_less_trans [OF nat_of_char_less_256]) simp
  then have "unat (of_nat (of_char c) :: jschar) = of_char c"
    by (simp add: unat_of_nat del: of_nat_of_char)
  then show ?thesis
    by (simp add: of_nat_of_char)
qed

lemma inj_of_char_16: "(of_char a :: jschar) = of_char b \<longleftrightarrow> a = b"
proof
  assume "(of_char a :: jschar) = of_char b"
  then have "unat (of_char a :: jschar) = unat (of_char b :: jschar)"
    by simp
  then show "a = b"
    by (simp add: unat_of_char_16)
qed simp

lemma lit_eq_lit [simp]: "lit a = lit b \<longleftrightarrow> a = b"
  by (simp add: lit_def inj_map_eq_map inj_def inj_of_char_16)

lemma speaker_literals [simp]:
  "lit ''USER'' \<noteq> lit ''ASSISTANT''" "lit ''SYSTEM'' \<noteq> lit ''ASSISTANT''"
  "lit ''SYSTEM'' \<noteq> lit ''USER''" "lit ''ASSISTANT'' \<noteq> lit ''USER''"
  "lit ''ASSISTANT'' \<noteq> lit ''SYSTEM''" "lit ''USER'' \<noteq> lit ''SYSTEM''"
  by (simp_all add: lit_def)

lemma type_literals [simp]:
  "lit ''user'' \<noteq> lit ''assistant''" "lit ''system'' \<noteq> lit ''assistant''"
  "lit ''system'' \<noteq> lit ''user''" "lit ''assistant'' \<noteq> lit ''user''"
  "lit ''assistant'' \<noteq> lit ''system''" "lit ''user'' \<noteq> lit ''system''"
  by (simp_all add: lit_def)


lemma split_newline_nonempty: "split_newline s \<noteq> []"
  by (induction s) (auto split: list.splits)

subsection \<open>Relative timestamps\<close>

lemma decimal_small: "n < 10 \<Longrightarrow> decimal n = [digit n]"
  by (simp add: decimal.simps)

lemma decimal_two: "10 \<le> n \<Longrightarrow> n < 100 \<Longrightarrow> decimal n = [digit (n div 10), digit (n mod 10)]"
  by (subst decimal.simps) (simp add: decimal_small)

lemma length_decimal_ge2: "10 \<le> n \<Longrightarrow> 2 \<le> length (decimal n)"
  by (subst decimal.simps) (simp add: Suc_le_eq decimal.simps [of "n div 10"])

lemma pad2_nat: "n < 100 \<Longrightarrow> padStart0 2 (String_int (int n)) = two_digits n"
  by (cases "n < 10")
     (simp_all add: padStart0_def String_int_def two_digits_def decimal_small decimal_two)

lemma pad2_big: "100 \<le> n \<Longrightarrow> padStart0 2 (String_int (int n)) = decimal n"
  using length_decimal_ge2 [of n] by (simp add: padStart0_def String_int_def)

lemma js_rem_nonneg: "0 \<le> a \<Longrightarrow> 0 < b \<Longrightarrow> js_rem a b = a mod b"
  by (cases "a = 0") (simp_all add: js_rem_def)

text \<open>
  C8. For every non-negative elapsed time in milliseconds, with \<open>t\<close> its whole seconds,
  the stamp is \<open>MM:SS\<close> (minutes and seconds of \<open>t\<close>, two digits each) when the whole
  hours are zero, and \<open>HH:MM:SS\<close> when they are at least one.
\<close>

theorem formatRelativeTime_format:
  assumes "0 \<le> elapsed"
  shows "formatRelativeTime elapsed =
    (let t = nat elapsed div 1000; h = t div 3600; m = t mod 3600 div 60; s = t mod 60
     in if h = 0 then MM_SS m s else HH_MM_SS h m s)"
proof -
  define t where "t = nat elapsed div 1000"
  define m where "m = t mod 3600 div 60"
  define s where "s = t mod 60"
  define h where "h = t div 3600"
  have t: "elapsed div 1000 = int t"
    using assms by (simp add: t_def zdiv_int)
  have m: "js_rem (int t) 3600 div 60 = int m"
    by (simp add: m_def js_rem_nonneg zmod_int zdiv_int)
  have s: "js_rem (int t) 60 = int s"
    by (simp add: s_def js_rem_nonneg zmod_int)
  have h: "int t div 3600 = int h"
    by (simp add: h_def zdiv_int)
  have "m < 100" and "s < 100"
    by (simp_all add: m_def s_def less_mult_imp_div_less order_less_trans [OF mod_less_divisor])
  then have ms: "padStart0 2 (String_int (int m)) = two_digits m"
      "padStart0 2 (String_int (int s)) = two_digits s"
    by (simp_all add: pad2_nat)
  have hh: "padStart0 2 (String_int (int h)) = (if h < 100 then two_digits h else decimal h)"
    by (simp add: pad2_nat pad2_big)
  have "formatRelativeTime elapsed = (if h = 0 then MM_SS m s else HH_MM_SS h m s)"
    unfolding formatRelativeTime_def Let_def t m s h ms hh
    by (simp add: MM_SS_def HH_MM_SS_def)
  then show ?thesis
    by (simp add: Let_def t_def m_def s_def h_def)
qed

theorem formatRelativeTime_format_witness:
  "formatRelativeTime 3725000 = lit ''01:02:05'' \<and> formatRelativeTime 125999 = lit ''02:05''"
  using formatRelativeTime_format [of 3725000] formatRelativeTime_format [of 125999]
  by (simp add: MM_SS_def HH_MM_SS_def two_digits_def digit_def lit_def)

subsection \<open>Progressive disclosure\<close>












subsection \<open>Annotation content and style\<close>

lemma userLoop_hasError:
  "userLoop rt items (parts, e) = (parts', e') \<Longrightarrow>
     e' \<longleftrightarrow> e \<or> list_ex (\<lambda>contentItem. ci_type contentItem = lit ''tool_result''
                      \<and> truthyBool (ci_is_error contentItem)) items"
proof (induction items arbitrary: parts e)
  case Nil
  then show ?case by simp
next
  case (Cons contentItem items)
  show ?case
  proof (cases "ci_type contentItem = lit ''tool_result''")
    case True
    with Cons.prems have "userLoop rt items (parts @ [toolResultPart rt contentItem],
        e \<or> truthyBool (ci_is_error contentItem)) = (parts', e')"
      by simp
    from Cons.IH [OF this] True show ?thesis by auto
  next
    case False
    with Cons.prems have "\<exists>ps. userLoop rt items (ps, e) = (parts', e')"
      by (auto split: option.splits)
    then obtain ps where "userLoop rt items (ps, e) = (parts', e')" ..
    from Cons.IH [OF this] False show ?thesis by auto
  qed
qed

lemma extract_speaker:
  "fst (extractCleanJSONContentWithErrorCheck rt msg) =
    (if type msg = lit ''system'' then lit ''SYSTEM''
     else if type msg = lit ''assistant'' then lit ''ASSISTANT''
     else if type msg = lit ''user'' then lit ''USER''
     else toUpperCase rt (type msg))"
  by (simp add: extractCleanJSONContentWithErrorCheck_def split: option.splits prod.splits)

lemma extract_unknown:
  "type msg \<noteq> lit ''system'' \<Longrightarrow> type msg \<noteq> lit ''assistant'' \<Longrightarrow> type msg \<noteq> lit ''user'' \<Longrightarrow>
   extractCleanJSONContentWithErrorCheck rt msg = (toUpperCase rt (type msg), UnknownMessageType, False)"
  by (simp add: extractCleanJSONContentWithErrorCheck_def)

lemma extract_hasError:
  "snd (snd (extractCleanJSONContentWithErrorCheck rt msg)) \<longleftrightarrow> type msg = lit ''user'' \<and> errorFlagged msg"
proof (cases "type msg = lit ''user''")
  case False
  then show ?thesis
    by (simp add: extractCleanJSONContentWithErrorCheck_def split: option.splits)
next
  case True
  show ?thesis
  proof (cases "message msg")
    case None
    with True show ?thesis
      by (simp add: extractCleanJSONContentWithErrorCheck_def errorFlagged_def)
  next
    case (Some m)
    obtain ps e where ul: "userLoop rt (mb_content m) ([], False) = (ps, e)"
      by (cases "userLoop rt (mb_content m) ([], False)") auto
    from userLoop_hasError [OF ul] have e: "e \<longleftrightarrow> errorFlagged msg"
      by (simp add: errorFlagged_def Some)
    show ?thesis
    proof (cases "mb_content m = []")
      case True
      with \<open>type msg = lit ''user''\<close> Some show ?thesis
        by (simp add: extractCleanJSONContentWithErrorCheck_def errorFlagged_def)
    next
      case False
      with True Some ul e show ?thesis
        by (simp add: extractCleanJSONContentWithErrorCheck_def)
    qed
  qed
qed

lemma annotationContent_style:
  assumes "annotationContent rt raw = Some (sp, c, hasError)"
  shows "snd (speakerHeading sp hasError) =
     (if startsWith raw (lit ''{'')
      then (case JSON_parse_Message rt raw of
              None \<Rightarrow> lit ''warning''
            | Some msg \<Rightarrow>
                if type msg = lit ''user''
                then (if errorFlagged msg then lit ''error'' else lit ''success'')
                else if type msg = lit ''system'' then lit ''warning''
                else lit ''info'')
      else lit ''warning'')"
proof (cases "startsWith raw (lit ''{'')")
  case False
  with assms show ?thesis
    by (auto simp: annotationContent_def speakerHeading_def)
next
  case True
  show ?thesis
  proof (cases "JSON_parse_Message rt raw")
    case None
    with assms True show ?thesis
      by (auto simp: annotationContent_def speakerHeading_def)
  next
    case (Some msg)
    obtain sp' c' e' where ex: "extractCleanJSONContentWithErrorCheck rt msg = (sp', c', e')"
      by (cases "extractCleanJSONContentWithErrorCheck rt msg") auto
    with assms True Some have eq: "sp' = sp" "c' = c" "e' = hasError" and c: "c \<noteq> UnknownMessageType"
      by (auto simp: annotationContent_def split: if_splits)
    have sp: "sp = (if type msg = lit ''system'' then lit ''SYSTEM''
        else if type msg = lit ''assistant'' then lit ''ASSISTANT''
        else if type msg = lit ''user'' then lit ''USER''
        else toUpperCase rt (type msg))"
      using extract_speaker [of rt msg] ex eq by simp
    have he: "hasError \<longleftrightarrow> type msg = lit ''user'' \<and> errorFlagged msg"
      using extract_hasError [of rt msg] ex eq by simp
    have known: "type msg = lit ''system'' \<or> type msg = lit ''assistant'' \<or> type msg = lit ''user''"
      using extract_unknown [of msg rt] ex eq c by auto
    from known show ?thesis
      using True Some sp he by (auto simp: speakerHeading_def)
  qed
qed

lemma scenarioB_body:
  assumes "JSON_parse_Message rt scenarioB_line = Some scenarioB_message"
    and "JSON_parse rt (lit ''boom'') = None"
  shows "annotationContent rt scenarioB_line =
     Some (lit ''USER'', emoji_cross @ lit '' Tool error:'' @ NL @ lit ''boom'', True)"
proof -
  have sw: "startsWith scenarioB_line (lit ''{'')"
    by (simp add: scenarioB_line_def startsWith_def lit_def)
  have boom: "length (split_newline (lit ''boom'')) = 1" "length (lit ''boom'') = 4"
    by (simp_all add: lit_def)
  have ne: "emoji_cross @ lit '' Tool error:'' @ NL @ lit ''boom'' \<noteq> UnknownMessageType"
    by (simp add: emoji_cross_def UnknownMessageType_def lit_def)
  have "extractCleanJSONContentWithErrorCheck rt scenarioB_message =
      (lit ''USER'', emoji_cross @ lit '' Tool error:'' @ NL @ lit ''boom'', True)"
    using assms(2) boom
    by (simp add: extractCleanJSONContentWithErrorCheck_def scenarioB_message_def
        toolResultPart_def resultContent_def truthyString_def truthyBool_def disclose_def
        needsDisclosure_def)
  then show ?thesis
    using assms(1) sw ne by (simp add: annotationContent_def)
qed

lemma trim_scenarioB: "trim scenarioB_line = scenarioB_line"
  by (simp add: trim_def scenarioB_line_def lit_def isWhiteSpace_def)

lemma buildAnnotation_eq:
  "buildAnnotation rt line n ts =
    (if trim line = [] then None
     else (case annotationContent rt (trim line) of
             None \<Rightarrow> None
           | Some (sp, c, hasError) \<Rightarrow>
               Some \<lparr>ann_style = snd (speakerHeading sp hasError),
                     ann_context = lit ''chat-message-'' @ decimal n,
                     ann_body =
                       lit ''**Message '' @ decimal n @ lit ''** - `'' @ ts @ lit ''`'' @ NL @ NL
                       @ fst (speakerHeading sp hasError) @ c
                       @ NL @ NL @ lit ''<details>'' @ NL @ lit ''<summary>Show JSON</summary>''
                       @ NL @ NL @ lit ''```json'' @ NL
                       @ jsonDisclosure rt (trim line)
                       @ NL @ lit ''```'' @ NL @ NL @ lit ''</details>''\<rparr>))"
  unfolding buildAnnotation_def Let_def
  by (simp split: option.splits prod.splits)

text \<open>
  C4. The style of every annotation that is built: \<^verbatim>\<open>warning\<close> for a line that is not
  decoded (plain text, classified as SYSTEM) and for a system event, \<^verbatim>\<open>error\<close> for a user
  event with an error-flagged tool result, \<^verbatim>\<open>success\<close> for a user event without one, and
  \<^verbatim>\<open>info\<close> otherwise. For the line of scenario B, under every runtime that decodes it
  (and does not decode the text \<^verbatim>\<open>boom\<close>), the style is \<^verbatim>\<open>error\<close> and the body contains
  the cross mark, \<^verbatim>\<open>Tool error:\<close> and \<^verbatim>\<open>boom\<close>.
\<close>

theorem annotation_style:
  "(buildAnnotation rt line n ts = Some a \<longrightarrow>
      ann_style a =
        (if startsWith (trim line) (lit ''{'')
         then (case JSON_parse_Message rt (trim line) of
                 None \<Rightarrow> lit ''warning''
               | Some msg \<Rightarrow>
                   if type msg = lit ''user''
                   then (if errorFlagged msg then lit ''error'' else lit ''success'')
                   else if type msg = lit ''system'' then lit ''warning''
                   else lit ''info'')
         else lit ''warning''))
   \<and> (JSON_parse_Message rt scenarioB_line = Some scenarioB_message
        \<and> JSON_parse rt (lit ''boom'') = None \<longrightarrow>
      (\<exists>b pre post. buildAnnotation rt scenarioB_line n ts = Some b
         \<and> ann_style b = lit ''error''
         \<and> ann_body b = pre @ emoji_cross @ lit '' Tool error:'' @ NL @ lit ''boom'' @ post))"
proof (intro conjI impI)
  assume b: "buildAnnotation rt line n ts = Some a"
  then have ne: "trim line \<noteq> []"
    by (simp add: buildAnnotation_eq split: if_splits)
  with b obtain x where ac: "annotationContent rt (trim line) = Some x"
    by (cases "annotationContent rt (trim line)") (simp_all add: buildAnnotation_eq)
  obtain sp c hasError where x: "x = (sp, c, hasError)"
    by (cases x) auto
  from b ne ac x have "ann_style a = snd (speakerHeading sp hasError)"
    by (auto simp: buildAnnotation_eq)
  with annotationContent_style [OF ac [unfolded x]]
  show "ann_style a =
        (if startsWith (trim line) (lit ''{'')
         then (case JSON_parse_Message rt (trim line) of
                 None \<Rightarrow> lit ''warning''
               | Some msg \<Rightarrow>
                   if type msg = lit ''user''
                   then (if errorFlagged msg then lit ''error'' else lit ''success'')
                   else if type msg = lit ''system'' then lit ''warning''
                   else lit ''info'')
         else lit ''warning'')"
    by simp
next
  assume h: "JSON_parse_Message rt scenarioB_line = Some scenarioB_message
        \<and> JSON_parse rt (lit ''boom'') = None"
  have ne: "scenarioB_line \<noteq> []"
    by (simp add: scenarioB_line_def)
  from h have ac: "annotationContent rt scenarioB_line =
     Some (lit ''USER'', emoji_cross @ lit '' Tool error:'' @ NL @ lit ''boom'', True)"
    by (simp add: scenarioB_body)
  define pre where "pre = lit ''**Message '' @ decimal n @ lit ''** - `'' @ ts @ lit ''`'' @ NL @ NL
       @ emoji_bust @ lit '' **USER**:'' @ NL @ NL"
  define post where "post = NL @ NL @ lit ''<details>'' @ NL @ lit ''<summary>Show JSON</summary>''
                       @ NL @ NL @ lit ''```json'' @ NL
                       @ jsonDisclosure rt scenarioB_line
                       @ NL @ lit ''```'' @ NL @ NL @ lit ''</details>''"
  have "buildAnnotation rt scenarioB_line n ts =
      Some \<lparr>ann_style = lit ''error'', ann_context = lit ''chat-message-'' @ decimal n,
            ann_body = pre @ emoji_cross @ lit '' Tool error:'' @ NL @ lit ''boom'' @ post\<rparr>"
    using ne ac by (simp add: buildAnnotation_eq trim_scenarioB speakerHeading_def pre_def post_def)
  then show "\<exists>b pre post. buildAnnotation rt scenarioB_line n ts = Some b
         \<and> ann_style b = lit ''error''
         \<and> ann_body b = pre @ emoji_cross @ lit '' Tool error:'' @ NL @ lit ''boom'' @ post"
    by auto
qed

lemma reference_decodes_scenarioB:
  "JSON_parse_Message reference_runtime scenarioB_line = Some scenarioB_message"
  by code_simp

lemma reference_boom: "JSON_parse reference_runtime (lit ''boom'') = None"
  by code_simp

theorem annotation_style_witness:
  "\<exists>b pre post. buildAnnotation reference_runtime scenarioB_line 1 (lit ''00:00'') = Some b
         \<and> ann_style b = lit ''error''
         \<and> ann_body b = pre @ emoji_cross @ lit '' Tool error:'' @ NL @ lit ''boom'' @ post"
  using annotation_style [of reference_runtime scenarioB_line 1 "lit ''00:00''"]
    reference_decodes_scenarioB reference_boom
  by simp

lemma createBuildkiteAnnotation_suppressed:
  "buildAnnotation rt line n ts = None \<Longrightarrow> createBuildkiteAnnotation rt line n ts w = w"
  by (simp add: createBuildkiteAnnotation_def)

text \<open>
  C10. An assistant event whose single content item is the text
  \<^verbatim>\<open>Unknown message type\<close> renders to exactly that literal, so its annotation is
  suppressed although its type is a known one: suppression follows the rendered content,
  not the type.
\<close>

theorem marker_text_suppresses_annotation:
  assumes "startsWith (trim line) (lit ''{'')"
    and "JSON_parse_Message rt (trim line) = Some msg"
    and "type msg = lit ''assistant''"
    and "message msg = Some m" and "mb_content m = [contentItem]"
    and "ci_type contentItem = lit ''text''"
    and "ci_text contentItem = Some (lit ''Unknown message type'')"
  shows "extractCleanJSONContentWithErrorCheck rt msg
           = (lit ''ASSISTANT'', lit ''Unknown message type'', False)
       \<and> buildAnnotation rt line n ts = None
       \<and> createBuildkiteAnnotation rt line n ts w = w"
proof -
  have ex: "extractCleanJSONContentWithErrorCheck rt msg
           = (lit ''ASSISTANT'', lit ''Unknown message type'', False)"
    using assms(3-7)
    by (simp add: extractCleanJSONContentWithErrorCheck_def truthyString_def)
  then have "annotationContent rt (trim line) = None"
    using assms(1,2) by (simp add: annotationContent_def UnknownMessageType_def)
  then have "buildAnnotation rt line n ts = None"
    by (simp add: buildAnnotation_eq)
  with ex show ?thesis
    by (simp add: createBuildkiteAnnotation_suppressed)
qed

lemma reference_decodes_marker_text:
  "JSON_parse_Message reference_runtime (trim marker_text_line) =
     Some \<lparr>type = lit ''assistant'', subtype = None,
           message = Some \<lparr>mb_content =
             [\<lparr>ci_type = lit ''text'', ci_text = Some (lit ''Unknown message type''),
               ci_name = None, ci_input = None, ci_content = None, ci_is_error = None\<rparr>]\<rparr>,
           session_id = None, model = None\<rparr>"
  by code_simp

lemma startsWith_marker_text: "startsWith (trim marker_text_line) (lit ''{'')"
  by code_simp

theorem marker_text_suppresses_annotation_witness:
  "buildAnnotation reference_runtime marker_text_line 1 (lit ''00:00'') = None
   \<and> createBuildkiteAnnotation reference_runtime marker_text_line 1 (lit ''00:00'') world0 = world0"
  using marker_text_suppresses_annotation
    [OF startsWith_marker_text reference_decodes_marker_text, of _ _ 1 "lit ''00:00''" world0]
  by simp

subsection \<open>Line numbering\<close>

lemma parseLine_blank: "trim line = [] \<Longrightarrow> parseLine rt line w = (None, w)"
  by (simp add: parseLine_def)

lemma parseLine_nonblank:
  assumes "trim line \<noteq> []"
  shows "\<exists>entry. parseLine rt line w = (Some entry, w\<lparr>staticLineNum := staticLineNum w + 1\<rparr>)
           \<and> lineNumber entry = staticLineNum w + 1
           \<and> timestamp entry = formatRelativeTime (clock rt (staticLineNum w + 1))"
  using assms by (auto simp: parseLine_def Let_def split: option.splits prod.splits)

lemma printSingleEntry_frame:
  "staticLineNum (printSingleEntry entry w) = staticLineNum w"
  "stderr (printSingleEntry entry w) = stderr w"
  "execs (printSingleEntry entry w) = execs w"
  "writes (printSingleEntry entry w) = writes w"
  by (simp_all add: printSingleEntry_def)

lemma createBuildkiteAnnotation_frame:
  "staticLineNum (createBuildkiteAnnotation rt line n ts w) = staticLineNum w"
  "stdout (createBuildkiteAnnotation rt line n ts w) = stdout w"
  "writes (createBuildkiteAnnotation rt line n ts w) = writes w"
  by (simp_all add: createBuildkiteAnnotation_def console_warn_def Let_def split: option.splits)

lemma createBuildkiteAnnotation_execs:
  "execs (createBuildkiteAnnotation rt line n ts w) =
     execs w @ (case buildAnnotation rt line n ts of
                  None \<Rightarrow> []
                | Some a \<Rightarrow> [(annotateCommand a, ann_body a)])"
  by (simp add: createBuildkiteAnnotation_def console_warn_def Let_def split: option.splits)

lemma onLine_blank: "trim line = [] \<Longrightarrow> onLine rt line w = w"
  by (simp add: onLine_def parseLine_blank)

lemma onLine_staticLineNum:
  "staticLineNum (onLine rt line w) = staticLineNum w + (if trim line = [] then 0 else 1)"
proof (cases "trim line = []")
  case True
  then show ?thesis by (simp add: onLine_blank)
next
  case False
  from parseLine_nonblank [OF False, of rt w] obtain entry where
    "parseLine rt line w = (Some entry, w\<lparr>staticLineNum := staticLineNum w + 1\<rparr>)"
    by blast
  with False show ?thesis
    by (simp add: onLine_def createBuildkiteAnnotation_frame printSingleEntry_frame)
qed

lemma onLine_writes: "writes (onLine rt line w) = writes w"
proof (cases "trim line = []")
  case True
  then show ?thesis by (simp add: onLine_blank)
next
  case False
  from parseLine_nonblank [OF False, of rt w] obtain entry where
    "parseLine rt line w = (Some entry, w\<lparr>staticLineNum := staticLineNum w + 1\<rparr>)"
    by blast
  then show ?thesis
    by (simp add: onLine_def createBuildkiteAnnotation_frame printSingleEntry_frame)
qed

lemma stream_lines:
  "parseAndStreamOutput rt (map Line ls) w = (Pending, foldl (\<lambda>w l. onLine rt l w) w ls)"
  by (induction ls arbitrary: w) simp_all

lemma foldl_onLine_staticLineNum:
  "staticLineNum (foldl (\<lambda>w l. onLine rt l w) w ls) =
     staticLineNum w + length (filter (\<lambda>l. trim l \<noteq> []) ls)"
  by (induction ls arbitrary: w) (simp_all add: onLine_staticLineNum)

lemma foldl_onLine_writes:
  "writes (foldl (\<lambda>w l. onLine rt l w) w ls) = writes w"
  by (induction ls arbitrary: w) (simp_all add: onLine_writes)

text \<open>
  C2. A run starts with the counter at zero. When line \<open>i\<close> of the input is reached, a
  blank line leaves the world as it is (no ordinal, nothing printed, no annotation), and
  a non-blank line gets as ordinal the number of non-blank lines among the first
  \<open>i + 1\<close>: the \<open>k\<close>-th non-blank line gets \<open>k\<close>.
\<close>

theorem ordinal_counts_nonblank_lines:
  assumes "i < length ls" and "staticLineNum w0 = 0"
    and "w = snd (parseAndStreamOutput rt (map Line (take i ls)) w0)"
  shows "(trim (ls ! i) = [] \<longrightarrow> onLine rt (ls ! i) w = w)
       \<and> (trim (ls ! i) \<noteq> [] \<longrightarrow>
            (\<exists>entry w'. parseLine rt (ls ! i) w = (Some entry, w')
               \<and> lineNumber entry = length (filter (\<lambda>l. trim l \<noteq> []) (take (Suc i) ls))
               \<and> staticLineNum w' = lineNumber entry
               \<and> onLine rt (ls ! i) w =
                   createBuildkiteAnnotation rt (ls ! i) (lineNumber entry) (timestamp entry)
                     (printSingleEntry entry w')))"
proof (intro conjI impI)
  assume "trim (ls ! i) = []"
  then show "onLine rt (ls ! i) w = w"
    by (rule onLine_blank)
next
  assume nb: "trim (ls ! i) \<noteq> []"
  from assms(3) have w: "w = foldl (\<lambda>w l. onLine rt l w) w0 (take i ls)"
    by (simp add: stream_lines)
  have n: "staticLineNum w = length (filter (\<lambda>l. trim l \<noteq> []) (take i ls))"
    unfolding w by (simp add: foldl_onLine_staticLineNum assms(2))
  from parseLine_nonblank [OF nb, of rt w] obtain entry where
    e: "parseLine rt (ls ! i) w = (Some entry, w\<lparr>staticLineNum := staticLineNum w + 1\<rparr>)"
       "lineNumber entry = staticLineNum w + 1"
    by blast
  have "length (filter (\<lambda>l. trim l \<noteq> []) (take (Suc i) ls)) = staticLineNum w + 1"
    using nb assms(1) by (simp add: take_Suc_conv_app_nth n)
  with e show "\<exists>entry w'. parseLine rt (ls ! i) w = (Some entry, w')
               \<and> lineNumber entry = length (filter (\<lambda>l. trim l \<noteq> []) (take (Suc i) ls))
               \<and> staticLineNum w' = lineNumber entry
               \<and> onLine rt (ls ! i) w =
                   createBuildkiteAnnotation rt (ls ! i) (lineNumber entry) (timestamp entry)
                     (printSingleEntry entry w')"
    by (simp add: onLine_def)
qed


theorem ordinal_counts_nonblank_lines_witness:
  \<open>\<exists>entry w'.
     parseLine reference_runtime ([lit ''{"type":"system"}'', lit '' '', lit ''{"type":"system"}''] ! 2)
       (snd (parseAndStreamOutput reference_runtime
          (map Line (take 2 [lit ''{"type":"system"}'', lit '' '', lit ''{"type":"system"}''])) world0))
       = (Some entry, w')
     \<and> lineNumber entry = 2\<close>
proof -
  let ?ls = \<open>[lit ''{"type":"system"}'', lit '' '', lit ''{"type":"system"}'']\<close>
  let ?w = "snd (parseAndStreamOutput reference_runtime (map Line (take 2 ?ls)) world0)"
  have blank: "trim (lit '' '') = []"
    by (simp add: trim_def lit_def isWhiteSpace_def)
  have nonblank: \<open>trim (lit ''{"type":"system"}'') \<noteq> []\<close>
    by (simp add: trim_def lit_def isWhiteSpace_def)
  have count: "length (filter (\<lambda>l. trim l \<noteq> []) (take (Suc 2) ?ls)) = 2"
    by (simp add: blank nonblank)
  have "2 < length ?ls" and "staticLineNum world0 = 0" and "trim (?ls ! 2) \<noteq> []"
    by (simp_all add: world0_def nonblank)
  with ordinal_counts_nonblank_lines [of 2 ?ls world0 ?w reference_runtime]
  have "\<exists>entry w'. parseLine reference_runtime (?ls ! 2) ?w = (Some entry, w')
               \<and> lineNumber entry = length (filter (\<lambda>l. trim l \<noteq> []) (take (Suc 2) ?ls))
               \<and> staticLineNum w' = lineNumber entry
               \<and> onLine reference_runtime (?ls ! 2) ?w =
                   createBuildkiteAnnotation reference_runtime (?ls ! 2) (lineNumber entry)
                     (timestamp entry) (printSingleEntry entry w')"
    by blast
  then show ?thesis
    unfolding count by blast
qed

subsection \<open>Failure of the annotate command\<close>

text \<open>Nothing but the call itself reads \<open>execSync\<close>.\<close>

lemma toolUseDescription_execSync [simp]:
  "toolUseDescription (rt\<lparr>execSync := f\<rparr>) = toolUseDescription rt"
  by (rule ext) (simp add: toolUseDescription_def Let_def cong: option.case_cong)

lemma assistantParts_execSync [simp]:
  "assistantParts (rt\<lparr>execSync := f\<rparr>) items = assistantParts rt items"
  by (induction items) simp_all

lemma resultContent_execSync [simp]:
  "resultContent (rt\<lparr>execSync := f\<rparr>) = resultContent rt"
  by (rule ext) (simp add: resultContent_def cong: option.case_cong)

lemma toolResultPart_execSync [simp]:
  "toolResultPart (rt\<lparr>execSync := f\<rparr>) = toolResultPart rt"
  by (rule ext) (simp add: toolResultPart_def)

lemma userLoop_execSync [simp]:
  "userLoop (rt\<lparr>execSync := f\<rparr>) items acc = userLoop rt items acc"
  by (induction rt items acc rule: userLoop.induct) (simp_all split: option.splits)

lemma extractClean_execSync [simp]:
  "extractCleanJSONContentWithErrorCheck (rt\<lparr>execSync := f\<rparr>) =
     extractCleanJSONContentWithErrorCheck rt"
  by (rule ext) (simp add: extractCleanJSONContentWithErrorCheck_def cong: option.case_cong if_cong)

lemma buildAnnotation_execSync [simp]:
  "buildAnnotation (rt\<lparr>execSync := f\<rparr>) = buildAnnotation rt"
  by (intro ext) (simp add: buildAnnotation_def annotationContent_def jsonDisclosure_def Let_def
        cong: option.case_cong prod.case_cong)

lemma consoleAssistantParts_execSync [simp]:
  "consoleAssistantParts (rt\<lparr>execSync := f\<rparr>) items = consoleAssistantParts rt items"
  by (induction items) (simp_all add: consoleToolUse_def Let_def cong: option.case_cong)

lemma consoleUserParts_execSync [simp]:
  "consoleUserParts (rt\<lparr>execSync := f\<rparr>) items = consoleUserParts rt items"
  by (induction items) (simp_all add: consoleToolResult_def)

lemma formatJSONMessage_execSync [simp]:
  "formatJSONMessage (rt\<lparr>execSync := f\<rparr>) = formatJSONMessage rt"
  by (rule ext) (simp add: formatJSONMessage_def cong: option.case_cong if_cong)

lemma parseLine_execSync [simp]:
  "parseLine (rt\<lparr>execSync := f\<rparr>) = parseLine rt"
  by (intro ext) (simp add: parseLine_def Let_def cong: option.case_cong prod.case_cong)

lemma parseLine_stderr:
  "parseLine rt line (w\<lparr>stderr := s\<rparr>) =
     (fst (parseLine rt line w), (snd (parseLine rt line w))\<lparr>stderr := s\<rparr>)"
  by (simp add: parseLine_def Let_def split: option.splits prod.splits)

lemma printSingleEntry_stderr:
  "printSingleEntry entry (w\<lparr>stderr := s\<rparr>) = (printSingleEntry entry w)\<lparr>stderr := s\<rparr>"
  by (simp add: printSingleEntry_def)

lemma createBuildkiteAnnotation_ok:
  "createBuildkiteAnnotation (rt\<lparr>execSync := \<lambda>cmd input. None\<rparr>) line n ts w =
     w\<lparr>execs := execs w @ (case buildAnnotation rt line n ts of
                               None \<Rightarrow> [] | Some a \<Rightarrow> [(annotateCommand a, ann_body a)])\<rparr>"
  by (simp add: createBuildkiteAnnotation_def Let_def split: option.splits)

lemma createBuildkiteAnnotation_any:
  "createBuildkiteAnnotation rt line n ts w =
     (createBuildkiteAnnotation (rt\<lparr>execSync := \<lambda>cmd input. None\<rparr>) line n ts w)
       \<lparr>stderr := stderr (createBuildkiteAnnotation rt line n ts w)\<rparr>"
  by (simp add: createBuildkiteAnnotation_def console_warn_def Let_def split: option.splits)

lemma onLine_ok_stderr:
  "onLine (rt\<lparr>execSync := \<lambda>cmd input. None\<rparr>) line (w\<lparr>stderr := s\<rparr>) =
     (onLine (rt\<lparr>execSync := \<lambda>cmd input. None\<rparr>) line w)\<lparr>stderr := s\<rparr>"
  by (cases "parseLine rt line w")
     (simp add: onLine_def parseLine_stderr printSingleEntry_stderr createBuildkiteAnnotation_ok
        split: option.splits)

lemma onLine_any:
  "onLine rt line w =
     (onLine (rt\<lparr>execSync := \<lambda>cmd input. None\<rparr>) line w)\<lparr>stderr := stderr (onLine rt line w)\<rparr>"
  by (cases "parseLine rt line w")
     (simp add: onLine_def split: option.splits, subst createBuildkiteAnnotation_any, simp)

lemma stream_ok_stderr:
  "parseAndStreamOutput (rt\<lparr>execSync := \<lambda>cmd input. None\<rparr>) evs (w\<lparr>stderr := s\<rparr>) =
     (fst (parseAndStreamOutput (rt\<lparr>execSync := \<lambda>cmd input. None\<rparr>) evs w),
      (snd (parseAndStreamOutput (rt\<lparr>execSync := \<lambda>cmd input. None\<rparr>) evs w))\<lparr>stderr := s\<rparr>)"
proof (induction evs arbitrary: w)
  case Nil
  then show ?case by simp
next
  case (Cons ev evs)
  then show ?case
    by (cases ev) (simp_all add: onLine_ok_stderr)
qed

lemma stream_any:
  "fst (parseAndStreamOutput rt evs w) =
     fst (parseAndStreamOutput (rt\<lparr>execSync := \<lambda>cmd input. None\<rparr>) evs w)
   \<and> snd (parseAndStreamOutput rt evs w) =
     (snd (parseAndStreamOutput (rt\<lparr>execSync := \<lambda>cmd input. None\<rparr>) evs w))
       \<lparr>stderr := stderr (snd (parseAndStreamOutput rt evs w))\<rparr>"
proof (induction evs arbitrary: w)
  case Nil
  then show ?case by simp
next
  case (Cons ev evs)
  show ?case
  proof (cases ev)
    case (Line l)
    have "parseAndStreamOutput (rt\<lparr>execSync := \<lambda>cmd input. None\<rparr>) evs (onLine rt l w) =
        parseAndStreamOutput (rt\<lparr>execSync := \<lambda>cmd input. None\<rparr>) evs
          ((onLine (rt\<lparr>execSync := \<lambda>cmd input. None\<rparr>) l w)\<lparr>stderr := stderr (onLine rt l w)\<rparr>)"
      using onLine_any [of rt l w] by simp
    with Cons.IH [of "onLine rt l w"] Line show ?thesis
      by (simp add: stream_ok_stderr)
  qed simp_all
qed

text \<open>
  C5. When the annotate command of an entry fails, \<^verbatim>\<open>createBuildkiteAnnotation\<close> returns
  with the one call it made recorded and one warning added to the error channel, the
  console output untouched. A run of the stream under any runtime settles as the run in
  which no command fails does, and ends in the same world up to the error channel: every
  later line is still counted, printed and annotated, each command being run once.
\<close>

theorem annotation_failure_contained:
  "(buildAnnotation rt line n ts = Some a
      \<and> execSync rt (annotateCommand a) (ann_body a) = Some err \<longrightarrow>
    createBuildkiteAnnotation rt line n ts w =
      w\<lparr>execs := execs w @ [(annotateCommand a, ann_body a)],
        stderr := stderr w @ [annotationWarning err]\<rparr>)
   \<and> fst (parseAndStreamOutput rt evs w) =
       fst (parseAndStreamOutput (rt\<lparr>execSync := \<lambda>cmd input. None\<rparr>) evs w)
   \<and> snd (parseAndStreamOutput rt evs w) =
       (snd (parseAndStreamOutput (rt\<lparr>execSync := \<lambda>cmd input. None\<rparr>) evs w))
         \<lparr>stderr := stderr (snd (parseAndStreamOutput rt evs w))\<rparr>"
  using stream_any [of rt evs w]
  by (simp add: createBuildkiteAnnotation_def console_warn_def Let_def)

lemma scenarioD_built:
  "buildAnnotation failing_runtime (lit ''hello world'') 1 (lit ''00:00'') = Some scenarioD_annotation"
  by code_simp

theorem annotation_failure_contained_witness:
  "createBuildkiteAnnotation failing_runtime (lit ''hello world'') 1 (lit ''00:00'') world0 =
     world0\<lparr>execs := [(lit ''buildkite-agent annotate --style warning --context chat-message-1 --priority 5'',
                        ann_body scenarioD_annotation)],
            stderr := [lit ''Warning: Failed to create Buildkite annotation: Error: Command failed'']\<rparr>"
proof -
  have fail: "execSync failing_runtime (annotateCommand scenarioD_annotation)
      (ann_body scenarioD_annotation) = Some (lit ''Error: Command failed'')"
    by (simp add: failing_runtime_def)
  have cmd: "annotateCommand scenarioD_annotation =
      lit ''buildkite-agent annotate --style warning --context chat-message-1 --priority 5''"
    by (simp add: annotateCommand_def scenarioD_annotation_def lit_def)
  have warn: "annotationWarning (lit ''Error: Command failed'') =
      lit ''Warning: Failed to create Buildkite annotation: Error: Command failed''"
    by (simp add: annotationWarning_def lit_def)
  show ?thesis
    using annotation_failure_contained
      [of failing_runtime "lit ''hello world''" 1 "lit ''00:00''" scenarioD_annotation
          "lit ''Error: Command failed''" world0 "[]"]
      scenarioD_built fail
    by (simp add: cmd warn world0_def)
qed

subsection \<open>The output file\<close>

lemma streamWithFile_lines:
  "streamWithFile rt out acc (map Line ls) w = (Pending, foldl (\<lambda>w l. onLine rt l w) w ls)"
  by (induction ls arbitrary: acc w) simp_all

lemma streamWithFile_lines_close:
  "streamWithFile rt out acc (map Line ls @ Close # evs) w =
     ((case writeFileSync rt out (join NL (acc @ ls) @ NL) of
         None \<Rightarrow> Resolved | Some err \<Rightarrow> Rejected err),
      (foldl (\<lambda>w l. onLine rt l w) w ls)
        \<lparr>writes := writes w @ [(out, join NL (acc @ ls) @ NL)]\<rparr>)"
proof (induction ls arbitrary: acc w)
  case Nil
  then show ?case by (simp add: Let_def split: option.splits)
next
  case (Cons l ls)
  show ?case
    using Cons [of "acc @ [l]" "onLine rt l w"] by (simp add: onLine_writes)
qed

lemma parseArgs_live_with_file:
  "parseArgs [lit ''-'', lit ''-o'', out] [] [] w = Inr (out, lit ''-'')"
  by simp

text \<open>
  C7. In live mode with an output file, while only lines have arrived nothing has been
  written; when the input closes after the lines \<open>ls\<close>, \<^verbatim>\<open>writeFileSync\<close> is called once,
  with the raw lines (blank ones included, untrimmed) joined by newlines and one newline
  appended, and the promise settles as that call does. Run from \<^verbatim>\<open>main\<close> with the
  arguments \<^verbatim>\<open>- -o out\<close>, this is the only write of the process.
\<close>

theorem output_file_written_once_at_close:
  "parseAndStreamOutputWithFile rt (map Line ls) out w =
      (Pending, foldl (\<lambda>w l. onLine rt l w) w ls)
   \<and> writes (foldl (\<lambda>w l. onLine rt l w) w ls) = writes w
   \<and> parseAndStreamOutputWithFile rt (map Line ls @ [Close]) out w =
      ((case writeFileSync rt out (join NL ls @ NL) of
          None \<Rightarrow> Resolved | Some err \<Rightarrow> Rejected err),
       (foldl (\<lambda>w l. onLine rt l w) w ls)\<lparr>writes := writes w @ [(out, join NL ls @ NL)]\<rparr>)
   \<and> (out \<noteq> [] \<longrightarrow>
        writes (snd (main rt [lit ''-'', lit ''-o'', out] (map Line ls) w)) = writes w
      \<and> fst (main rt [lit ''-'', lit ''-o'', out] (map Line ls) w) = None
      \<and> writes (snd (main rt [lit ''-'', lit ''-o'', out] (map Line ls @ [Close]) w)) =
          writes w @ [(out, join NL ls @ NL)]
      \<and> fst (main rt [lit ''-'', lit ''-o'', out] (map Line ls @ [Close]) w) =
          (case writeFileSync rt out (join NL ls @ NL) of None \<Rightarrow> Some 0 | Some err \<Rightarrow> Some 1))"
proof (intro conjI impI)
  show "parseAndStreamOutputWithFile rt (map Line ls) out w =
      (Pending, foldl (\<lambda>w l. onLine rt l w) w ls)"
    by (simp add: parseAndStreamOutputWithFile_def streamWithFile_lines)
  show "writes (foldl (\<lambda>w l. onLine rt l w) w ls) = writes w"
    by (rule foldl_onLine_writes)
  show c: "parseAndStreamOutputWithFile rt (map Line ls @ [Close]) out w =
      ((case writeFileSync rt out (join NL ls @ NL) of
          None \<Rightarrow> Resolved | Some err \<Rightarrow> Rejected err),
       (foldl (\<lambda>w l. onLine rt l w) w ls)\<lparr>writes := writes w @ [(out, join NL ls @ NL)]\<rparr>)"
    using streamWithFile_lines_close [of rt out "[]" ls "[]" w]
    by (simp add: parseAndStreamOutputWithFile_def)
next
  assume o: "out \<noteq> []"
  let ?w1 = "console_log [] (console_log (ColorCyan @ ColorBold
                           @ lit ''=== Claude Code Chat Transcript ==='' @ ColorReset) w)"
  have w1: "writes ?w1 = writes w"
    by (simp add: console_log_def)
  have m: "main rt [lit ''-'', lit ''-o'', out] evs w =
     (case parseAndStreamOutputWithFile rt evs out ?w1 of
        (Resolved, w2) \<Rightarrow> (Some 0, w2)
      | (Rejected err, w2) \<Rightarrow> (Some 1, console_error (lit ''Error: '' @ err) w2)
      | (Pending, w2) \<Rightarrow> (None, w2))" for evs
    using o by (simp add: main_def parseArgs_live_with_file Let_def)
  show "writes (snd (main rt [lit ''-'', lit ''-o'', out] (map Line ls) w)) = writes w"
    by (simp add: m parseAndStreamOutputWithFile_def streamWithFile_lines foldl_onLine_writes w1)
  show "fst (main rt [lit ''-'', lit ''-o'', out] (map Line ls) w) = None"
    by (simp add: m parseAndStreamOutputWithFile_def streamWithFile_lines)
  have c: "parseAndStreamOutputWithFile rt (map Line ls @ [Close]) out ?w1 =
      ((case writeFileSync rt out (join NL ls @ NL) of
          None \<Rightarrow> Resolved | Some err \<Rightarrow> Rejected err),
       (foldl (\<lambda>w l. onLine rt l w) ?w1 ls)\<lparr>writes := writes w @ [(out, join NL ls @ NL)]\<rparr>)"
    using streamWithFile_lines_close [of rt out "[]" ls "[]" ?w1]
    by (simp add: parseAndStreamOutputWithFile_def w1)
  show "writes (snd (main rt [lit ''-'', lit ''-o'', out] (map Line ls @ [Close]) w)) =
          writes w @ [(out, join NL ls @ NL)]"
    by (simp add: m c console_error_def split: option.splits)
  show "fst (main rt [lit ''-'', lit ''-o'', out] (map Line ls @ [Close]) w) =
          (case writeFileSync rt out (join NL ls @ NL) of None \<Rightarrow> Some 0 | Some err \<Rightarrow> Some 1)"
    by (simp add: m c split: option.splits)
qed

theorem output_file_written_once_at_close_witness:
  "writes (snd (main reference_runtime [lit ''-'', lit ''-o'', lit ''out.txt'']
      (map Line [lit ''one'', [], lit '' three ''] @ [Close]) world0))
   = [(lit ''out.txt'', lit ''one'' @ NL @ NL @ lit '' three '' @ NL)]"
  using output_file_written_once_at_close
    [of reference_runtime "[lit ''one'', [], lit '' three '']" "lit ''out.txt''" world0]
  by (simp add: world0_def lit_def)

subsection \<open>Renderings by event kind\<close>

lemma startsWith_nonempty: "startsWith s (lit ''{'') \<Longrightarrow> s \<noteq> []"
  by (auto simp: startsWith_def lit_def)

lemma parseLine_decoded:
  assumes "startsWith (trim line) (lit ''{'')" and "JSON_parse_Message rt (trim line) = Some msg"
  shows "parseLine rt line w =
    (Some \<lparr>lineNumber = staticLineNum w + 1,
           speaker = fst (formatJSONMessage rt msg),
           content = snd (formatJSONMessage rt msg),
           timestamp = formatRelativeTime (clock rt (staticLineNum w + 1)),
           isJSON = True,
           rawLine = trim line\<rparr>,
     w\<lparr>staticLineNum := staticLineNum w + 1\<rparr>)"
  using assms startsWith_nonempty [OF assms(1)]
  by (simp add: parseLine_def Let_def split: prod.splits)

lemma entryLines_nonempty: "entryLines entry \<noteq> []"
  using split_newline_nonempty [of "content entry"]
  by (simp add: entryLines_def split: list.splits)

lemma onLine_decoded_stdout:
  assumes "parseLine rt line w = (Some entry, w')"
  shows "stdout (onLine rt line w) = stdout w' @ (if content entry = [] then [] else entryLines entry)"
    and "execs (onLine rt line w) = execs w' @
          (case buildAnnotation rt line (lineNumber entry) (timestamp entry) of
             None \<Rightarrow> [] | Some a \<Rightarrow> [(annotateCommand a, ann_body a)])"
  using assms
  by (simp_all add: onLine_def createBuildkiteAnnotation_frame createBuildkiteAnnotation_execs
        printSingleEntry_def)

lemma buildAnnotation_decoded:
  assumes "startsWith (trim line) (lit ''{'')" and "JSON_parse_Message rt (trim line) = Some msg"
  shows "buildAnnotation rt line n ts = None \<longleftrightarrow>
           fst (snd (extractCleanJSONContentWithErrorCheck rt msg)) = UnknownMessageType"
  using assms startsWith_nonempty [OF assms(1)]
  by (simp add: buildAnnotation_eq annotationContent_def split: prod.splits)

lemma system_content:
  assumes "type msg = lit ''system''"
  shows "snd (formatJSONMessage rt msg) \<noteq> []"
    and "fst (snd (extractCleanJSONContentWithErrorCheck rt msg)) \<noteq> UnknownMessageType"
  using assms
  by (simp_all add: formatJSONMessage_def extractCleanJSONContentWithErrorCheck_def
        UnknownMessageType_def lit_def)


text \<open>
  C3 (as amended). For a line that decodes to a system, assistant or user event: the
  console rendering is produced exactly when the console content is not empty
  (\<^verbatim>\<open>printSingleEntry\<close> prints nothing for empty content), and the annotation is emitted
  whenever the annotation content is not the literal \<^verbatim>\<open>Unknown message type\<close>; a system
  event always has both. For a line that decodes to any other type: the console rendering
  is produced, with the uppercased type name as speaker and the marker as body, and no
  annotation is emitted.
\<close>

theorem renderings_by_event_kind:
  assumes "startsWith (trim line) (lit ''{'')"
    and "JSON_parse_Message rt (trim line) = Some msg"
    and "entry = \<lparr>lineNumber = staticLineNum w + 1,
                   speaker = fst (formatJSONMessage rt msg),
                   content = snd (formatJSONMessage rt msg),
                   timestamp = formatRelativeTime (clock rt (staticLineNum w + 1)),
                   isJSON = True,
                   rawLine = trim line\<rparr>"
  shows "(type msg = lit ''system'' \<or> type msg = lit ''assistant'' \<or> type msg = lit ''user'' \<longrightarrow>
            (content entry \<noteq> [] \<longrightarrow>
               stdout (onLine rt line w) = stdout w @ entryLines entry \<and> entryLines entry \<noteq> [])
          \<and> (content entry = [] \<longrightarrow> stdout (onLine rt line w) = stdout w)
          \<and> (fst (snd (extractCleanJSONContentWithErrorCheck rt msg)) \<noteq> lit ''Unknown message type'' \<longrightarrow>
               (\<exists>a. buildAnnotation rt line (lineNumber entry) (timestamp entry) = Some a
                  \<and> execs (onLine rt line w) = execs w @ [(annotateCommand a, ann_body a)])))
       \<and> (type msg = lit ''system'' \<longrightarrow>
            content entry \<noteq> []
          \<and> fst (snd (extractCleanJSONContentWithErrorCheck rt msg)) \<noteq> lit ''Unknown message type'')
       \<and> (type msg \<noteq> lit ''system'' \<and> type msg \<noteq> lit ''assistant'' \<and> type msg \<noteq> lit ''user'' \<longrightarrow>
            speaker entry = toUpperCase rt (type msg)
          \<and> content entry = lit ''Unknown message type''
          \<and> stdout (onLine rt line w) = stdout w @ entryLines entry \<and> entryLines entry \<noteq> []
          \<and> execs (onLine rt line w) = execs w)"
proof -
  have p: "parseLine rt line w = (Some entry, w\<lparr>staticLineNum := staticLineNum w + 1\<rparr>)"
    unfolding assms(3) by (rule parseLine_decoded [OF assms(1,2)])
  have out: "stdout (onLine rt line w) = stdout w @ (if content entry = [] then [] else entryLines entry)"
    using onLine_decoded_stdout(1) [OF p] by simp
  have calls: "execs (onLine rt line w) = execs w @
          (case buildAnnotation rt line (lineNumber entry) (timestamp entry) of
             None \<Rightarrow> [] | Some a \<Rightarrow> [(annotateCommand a, ann_body a)])"
    using onLine_decoded_stdout(2) [OF p] by simp
  note none = buildAnnotation_decoded [OF assms(1,2), of "lineNumber entry" "timestamp entry"]
  have known: "fst (snd (extractCleanJSONContentWithErrorCheck rt msg)) \<noteq> lit ''Unknown message type'' \<longrightarrow>
               (\<exists>a. buildAnnotation rt line (lineNumber entry) (timestamp entry) = Some a
                  \<and> execs (onLine rt line w) = execs w @ [(annotateCommand a, ann_body a)])"
    using none calls by (auto simp: UnknownMessageType_def)
  have sys: "type msg = lit ''system'' \<longrightarrow>
            content entry \<noteq> []
          \<and> fst (snd (extractCleanJSONContentWithErrorCheck rt msg)) \<noteq> lit ''Unknown message type''"
    using system_content [of msg rt] by (simp add: assms(3) UnknownMessageType_def)
  have unk: "type msg \<noteq> lit ''system'' \<and> type msg \<noteq> lit ''assistant'' \<and> type msg \<noteq> lit ''user'' \<longrightarrow>
            speaker entry = toUpperCase rt (type msg)
          \<and> content entry = lit ''Unknown message type''
          \<and> stdout (onLine rt line w) = stdout w @ entryLines entry \<and> entryLines entry \<noteq> []
          \<and> execs (onLine rt line w) = execs w"
  proof
    assume t: "type msg \<noteq> lit ''system'' \<and> type msg \<noteq> lit ''assistant'' \<and> type msg \<noteq> lit ''user''"
    then have f: "formatJSONMessage rt msg = (toUpperCase rt (type msg), UnknownMessageType)"
      by (simp add: formatJSONMessage_def)
    from t have "fst (snd (extractCleanJSONContentWithErrorCheck rt msg)) = UnknownMessageType"
      by (simp add: extract_unknown)
    with none have "buildAnnotation rt line (lineNumber entry) (timestamp entry) = None"
      by simp
    with calls have "execs (onLine rt line w) = execs w"
      by simp
    moreover have "content entry = lit ''Unknown message type''" "speaker entry = toUpperCase rt (type msg)"
      by (simp_all add: assms(3) f UnknownMessageType_def)
    ultimately show "speaker entry = toUpperCase rt (type msg)
          \<and> content entry = lit ''Unknown message type''
          \<and> stdout (onLine rt line w) = stdout w @ entryLines entry \<and> entryLines entry \<noteq> []
          \<and> execs (onLine rt line w) = execs w"
      using out entryLines_nonempty [of entry] by simp
  qed
  show ?thesis
    using out known sys unk entryLines_nonempty [of entry] by simp
qed

lemma reference_decodes_result_line:
  "JSON_parse_Message reference_runtime (trim result_line) =
     Some \<lparr>type = lit ''result'', subtype = None, message = None, session_id = None, model = None\<rparr>"
  by code_simp

lemma startsWith_result_line: "startsWith (trim result_line) (lit ''{'')"
  by code_simp

theorem renderings_by_event_kind_witness:
  "stdout (onLine reference_runtime result_line world0) =
     entryLines \<lparr>lineNumber = 1, speaker = lit ''RESULT'', content = lit ''Unknown message type'',
                 timestamp = lit ''00:00'', isJSON = True, rawLine = result_line\<rparr>
   \<and> execs (onLine reference_runtime result_line world0) = []"
proof -
  have t: "trim result_line = result_line"
    by code_simp
  have f: "formatJSONMessage reference_runtime
      \<lparr>type = lit ''result'', subtype = None, message = None, session_id = None, model = None\<rparr>
      = (lit ''RESULT'', lit ''Unknown message type'')"
    by code_simp
  have ts: "formatRelativeTime (clock reference_runtime (Suc 0)) = lit ''00:00''"
    by code_simp
  show ?thesis
    using renderings_by_event_kind
      [OF startsWith_result_line reference_decodes_result_line refl, of world0]
    by (simp add: world0_def f ts t)
qed

text \<open>
  C3 as stated fails: the line of an assistant event with no content items decodes to a
  known kind, yet nothing is printed for it, while its annotation is emitted; and the line
  of an assistant event whose only text is \<^verbatim>\<open>Unknown message type\<close> decodes to a known
  kind, is printed, and gets no annotation.
\<close>

theorem known_kind_renderings_counterexample:
  "map_option type (JSON_parse_Message reference_runtime (trim empty_assistant_line))
     = Some (lit ''assistant'')
   \<and> stdout (onLine reference_runtime empty_assistant_line world0) = []
   \<and> length (execs (onLine reference_runtime empty_assistant_line world0)) = 1
   \<and> map_option type (JSON_parse_Message reference_runtime (trim marker_text_line))
     = Some (lit ''assistant'')
   \<and> length (stdout (onLine reference_runtime marker_text_line world0)) = 2
   \<and> execs (onLine reference_runtime marker_text_line world0) = []"
  by code_simp

subsection \<open>Command line\<close>

text \<open>
  C6 at the invocation \<^verbatim>\<open>chat-parser -o out.txt transcript.jsonl\<close>: the program exits
  with status 1 before any event of the input is handled, having printed the line
  \<^verbatim>\<open>Error: -o option can only be used when streaming from stdin\<close> and nothing else; the
  usage text, which the other argument errors print, is not printed.
\<close>

theorem output_flag_with_file_path:
  "main rt [lit ''-o'', lit ''out.txt'', lit ''transcript.jsonl''] evs w =
     (Some 1, w\<lparr>stdout := stdout w @
        [lit ''Error: -o option can only be used when streaming from stdin'']\<rparr>)
   \<and> main rt [lit ''-o''] evs w =
       (Some 1, printUsage (console_log (lit ''Error: -o requires a filename'') w))"
  by (simp add: main_def console_log_def printUsage_def)

end
